theory Spec2Isabelle
  imports Complex_Main
begin

section \<open>Exceptions, log records and the ingestion world\<close>

text \<open>
  The Python exceptions that the modelled code can raise or let through. A raise is the
  left injection of a sum; \<open>RequestException\<close> is the only class that
  \<^verbatim>\<open>get_with_retry\<close> catches.
\<close>

datatype exn =
    RequestException string
  | SystemExit string
  | ValueError string
  | KeyError string
  | ZeroDivisionError
  | AssertionError string
  | OtherException string

fun is_RequestException :: "exn \<Rightarrow> bool" where
  "is_RequestException (RequestException _) = True"
| "is_RequestException _ = False"

text \<open>
  One constructor for each \<^verbatim>\<open>logging\<close> call of \<^verbatim>\<open>ingest_311.py\<close>, carrying the
  arguments of its format string.
\<close>

datatype log_record =
    WarnRequestFailed int int exn
  | ErrorMaxRetries
  | WarnNoToken
  | InfoWhere int int
  | InfoCounting
  | InfoFetching int int
  | InfoDryRun nat "int \<times> int"
  | InfoWrote nat "int \<times> int"
  | InfoDone int

text \<open>
  Everything \<^verbatim>\<open>ingest_311.py\<close> acts on: the remote client (an abstract state \<open>'c\<close>
  advanced by every call of \<^verbatim>\<open>client.get\<close>), the log, the arguments of
  \<^verbatim>\<open>time.sleep\<close> in order, and the parquet files written, each under the pair
  (since tag, page index) that makes up its file name.
\<close>

record ('c, 'p) world =
  client :: 'c
  log :: "log_record list"
  slept :: "real list"
  files :: "((int \<times> int) \<times> 'p list) list"

section \<open>\<^verbatim>\<open>get_with_retry\<close>\<close>

text \<open>
  \<^verbatim>\<open>client.get(dataset, **kwargs)\<close> is a function of the client state and the query
  that returns the rows or raises, and the next client state.

  The \<^verbatim>\<open>for attempt in range(1, max_retries + 1)\<close> loop is \<open>retry_from\<close>, started at
  attempt 1 with backoff 1.0. When the range is exhausted without a \<^verbatim>\<open>return\<close> or a
  \<^verbatim>\<open>raise\<close> (possible only when it is empty) the Python function falls off its end
  and returns \<^verbatim>\<open>None\<close>: the result \<open>Inr None\<close>.
\<close>

function retry_from ::
  "('c \<Rightarrow> 'q \<Rightarrow> (exn + 'a) \<times> 'c) \<Rightarrow> 'q \<Rightarrow> int \<Rightarrow> int \<Rightarrow> real \<Rightarrow> ('c, 'p) world
    \<Rightarrow> (exn + 'a option) \<times> ('c, 'p) world"
where
  "retry_from get q max_retries attempt backoff w =
    (if max_retries < attempt then (Inr None, w)
     else
       (case get (client w) q of
          (Inr res, c') \<Rightarrow> (Inr (Some res), w\<lparr>client := c'\<rparr>)
        | (Inl exc, c') \<Rightarrow>
            if is_RequestException exc then
              (let w1 = w\<lparr>client := c',
                          log := log w @ [WarnRequestFailed attempt max_retries exc]\<rparr>
               in if attempt = max_retries
                  then (Inl exc, w1\<lparr>log := log w1 @ [ErrorMaxRetries]\<rparr>)
                  else retry_from get q max_retries (attempt + 1) (min (backoff * 2) 30)
                         (w1\<lparr>slept := slept w1 @ [backoff]\<rparr>))
            else (Inl exc, w\<lparr>client := c'\<rparr>)))"
  by pat_completeness auto
termination
  by (relation "measure (\<lambda>(get, q, max_retries, attempt, backoff, w). nat (max_retries + 1 - attempt))")
     auto

declare retry_from.simps [simp del]

definition get_with_retry ::
  "('c \<Rightarrow> 'q \<Rightarrow> (exn + 'a) \<times> 'c) \<Rightarrow> 'q \<Rightarrow> int \<Rightarrow> ('c, 'p) world
    \<Rightarrow> (exn + 'a option) \<times> ('c, 'p) world"
where
  "get_with_retry get q max_retries w = retry_from get q max_retries 1 1 w"

text \<open>
  A test stub for \<^verbatim>\<open>client.get\<close>: its state is the number of calls made so far, and
  the \<open>n\<close>-th call (from 0) answers \<open>script n\<close>.
\<close>

definition scripted :: "(nat \<Rightarrow> exn + 'a) \<Rightarrow> nat \<Rightarrow> 'q \<Rightarrow> (exn + 'a) \<times> nat" where
  "scripted script n q = (script n, Suc n)"

text \<open>The backoff slept after the \<open>i\<close>-th failed attempt (from 0).\<close>

definition backoff_at :: "nat \<Rightarrow> real" where
  "backoff_at i = min (2 ^ i) 30"

text \<open>
  Two stubs of the test suite's kind: one whose every call raises a request error, one that
  raises twice and then answers; and the world a run starts from.
\<close>

definition always_fails :: "nat \<Rightarrow> exn + string" where
  "always_fails n = Inl (RequestException ''timeout'')"

definition fails_twice :: "nat \<Rightarrow> exn + string" where
  "fails_twice n = (if n < 2 then Inl (RequestException ''timeout'') else Inr ''rows'')"

definition timeout_exc :: "nat \<Rightarrow> exn" where
  "timeout_exc i = RequestException ''timeout''"

definition stub_world :: "(nat, unit) world" where
  "stub_world = \<lparr>client = 0, log = [], slept = [], files = []\<rparr>"

section \<open>The ingestion run: \<^verbatim>\<open>main\<close> of \<^verbatim>\<open>ingest_311.py\<close>\<close>

text \<open>
  The parsed command line. Dates are kept as the strings given; \<^verbatim>\<open>--out-dir\<close>,
  \<^verbatim>\<open>--timeout\<close> and \<^verbatim>\<open>--so-token-env\<close> only select where files go and how the client
  is built, and \<^verbatim>\<open>--years\<close> is parsed but never read by \<^verbatim>\<open>main\<close>.
\<close>

record args =
  years :: int
  page_size :: int
  limit :: "int option"
  max_retries :: int
  dry_run :: bool
  since :: "string option"
  until :: "string option"

text \<open>
  What \<^verbatim>\<open>main\<close> reads from the process environment and the clock: the two token
  variables, \<^verbatim>\<open>SINCE_DATE\<close>, \<^verbatim>\<open>UNTIL_DATE\<close>, \<^verbatim>\<open>YEARS_BACK\<close> (already an integer) and
  today's date. A date is its day number.
\<close>

record environ =
  app_token_var :: "string option"
  socrata_token_var :: "string option"
  since_var :: "string option"
  until_var :: "string option"
  years_back :: int
  today :: int

text \<open>Python truthiness of an optional integer and of an optional string.\<close>

fun truthy_int :: "int option \<Rightarrow> bool" where
  "truthy_int None = False"
| "truthy_int (Some n) = (n \<noteq> 0)"

fun truthy_str :: "string option \<Rightarrow> bool" where
  "truthy_str None = False"
| "truthy_str (Some s) = (s \<noteq> [])"

text \<open>
  The two queries \<^verbatim>\<open>main\<close> sends, both under the same \<^verbatim>\<open>where\<close> clause (the range
  from \<open>since\<close> 00:00:00 to \<open>until\<close> 23:59:59): the count, and one page of the selected
  columns in creation order with a limit and an offset.
\<close>

datatype query =
    CountQuery int int
  | PageQuery int int int int

text \<open>A row of a response: the count row \<^verbatim>\<open>{"count_1": n}\<close> or a record of the data set.\<close>

datatype 'r api_row = CountRow int | DataRow 'r

text \<open>
  \<^verbatim>\<open>_parse_date\<close>, over the library's \<^verbatim>\<open>strptime(s, "%Y-%m-%d")\<close> given as a parameter
  (\<open>None\<close> where it raises).
\<close>

definition parse_date :: "(string \<Rightarrow> int option) \<Rightarrow> string \<Rightarrow> exn + int" where
  "parse_date strptime s = (case strptime s of Some d \<Rightarrow> Inr d | None \<Rightarrow> Inl (ValueError s))"

definition since_date_of :: "(string \<Rightarrow> int option) \<Rightarrow> args \<Rightarrow> environ \<Rightarrow> exn + int" where
  "since_date_of strptime a env =
    (if truthy_str (since a) then parse_date strptime (the (since a))
     else if truthy_str (since_var env) then parse_date strptime (the (since_var env))
     else Inr (today env - 365 * years_back env))"

definition until_date_of :: "(string \<Rightarrow> int option) \<Rightarrow> args \<Rightarrow> environ \<Rightarrow> exn + int" where
  "until_date_of strptime a env =
    (if truthy_str (until a) then parse_date strptime (the (until a))
     else if truthy_str (until_var env) then parse_date strptime (the (until_var env))
     else Inr (today env))"

text \<open>
  \<^verbatim>\<open>total_to_fetch\<close>: the limit when it is truthy, else the answer of the count query
  (0 when the answer is empty or \<^verbatim>\<open>None\<close>).
\<close>

definition count_total ::
  "('c \<Rightarrow> query \<Rightarrow> (exn + 'r api_row list) \<times> 'c) \<Rightarrow> args \<Rightarrow> int \<Rightarrow> int \<Rightarrow> ('c, 'p) world
    \<Rightarrow> (exn + int) \<times> ('c, 'p) world"
where
  "count_total get a since_date until_date w =
    (if truthy_int (limit a) then (Inr (the (limit a)), w)
     else
       (let w1 = w\<lparr>log := log w @ [InfoCounting]\<rparr> in
        case get_with_retry get (CountQuery since_date until_date) (max_retries a) w1 of
          (Inl e, w2) \<Rightarrow> (Inl e, w2)
        | (Inr None, w2) \<Rightarrow> (Inr 0, w2)
        | (Inr (Some []), w2) \<Rightarrow> (Inr 0, w2)
        | (Inr (Some (CountRow n # _)), w2) \<Rightarrow> (Inr n, w2)
        | (Inr (Some (DataRow _ # _)), w2) \<Rightarrow> (Inl (KeyError ''count_1''), w2)))"

text \<open>\<^verbatim>\<open>pages = math.ceil(total_to_fetch / page_size) if total_to_fetch else 0\<close>.\<close>

definition pages_of :: "int \<Rightarrow> int \<Rightarrow> exn + int" where
  "pages_of total_to_fetch psize =
    (if total_to_fetch \<noteq> 0
     then (if psize = 0 then Inl ZeroDivisionError
           else Inr \<lceil>real_of_int total_to_fetch / real_of_int psize\<rceil>)
     else Inr 0)"

text \<open>
  One pass through the body of \<^verbatim>\<open>while True\<close>, from the loop variables
  (\<open>offset\<close>, \<open>page_idx\<close>, \<open>written\<close>) and the world: \<open>Inr\<close> when the pass leaves the
  loop (by \<^verbatim>\<open>break\<close>, with the value of \<open>written\<close>, or by an exception), \<open>Inl\<close> with
  the new loop variables when it reaches the end of the body. \<open>std\<close> is the element-wise
  dtype standardisation applied to the page before it is written.
\<close>

definition page_iter ::
  "('c \<Rightarrow> query \<Rightarrow> (exn + 'r api_row list) \<times> 'c) \<Rightarrow> ('r api_row \<Rightarrow> 'p) \<Rightarrow> args \<Rightarrow> int \<Rightarrow> int
    \<Rightarrow> int \<times> int \<times> int \<times> ('c, 'p) world
    \<Rightarrow> (int \<times> int \<times> int \<times> ('c, 'p) world) + ((exn + int) \<times> ('c, 'p) world)"
where
  "page_iter get std a since_date until_date st =
    (case st of (offset, page_idx, written, w) \<Rightarrow>
      if truthy_int (limit a) \<and> the (limit a) - written \<le> 0 then Inr (Inr written, w)
      else
        (let this_limit =
               (if truthy_int (limit a) then min (page_size a) (the (limit a) - written)
                else page_size a)
         in case get_with_retry get (PageQuery since_date until_date this_limit offset)
                   (max_retries a) w of
              (Inl e, w1) \<Rightarrow> Inr (Inl e, w1)
            | (Inr None, w1) \<Rightarrow> Inr (Inr written, w1)
            | (Inr (Some []), w1) \<Rightarrow> Inr (Inr written, w1)
            | (Inr (Some (r # rs)), w1) \<Rightarrow>
                (let df = map std (r # rs);
                     page_idx' = page_idx + 1;
                     written' = written + int (length df);
                     out_path = (since_date, page_idx');
                     w2 = (if dry_run a
                           then w1\<lparr>log := log w1 @ [InfoDryRun (length df) out_path]\<rparr>
                           else w1\<lparr>files := files w1 @ [(out_path, df)],
                                   log := log w1 @ [InfoWrote (length df) out_path]\<rparr>)
                 in if int (length df) < this_limit then Inr (Inr written', w2)
                    else if truthy_int (limit a) \<and> the (limit a) \<le> written'
                    then Inr (Inr written', w2)
                    else Inl (offset + this_limit, page_idx', written', w2))))"

text \<open>
  Repeating a loop body until it leaves the loop. The loop need not end, so the result is
  optional: \<open>None\<close> is a run that never leaves.
\<close>

partial_function (option) run_loop :: "('s \<Rightarrow> 's + 'r) \<Rightarrow> 's \<Rightarrow> 'r option" where
  "run_loop body s = (case body s of Inl s' \<Rightarrow> run_loop body s' | Inr r \<Rightarrow> Some r)"

declare run_loop.simps [code]

definition page_loop ::
  "('c \<Rightarrow> query \<Rightarrow> (exn + 'r api_row list) \<times> 'c) \<Rightarrow> ('r api_row \<Rightarrow> 'p) \<Rightarrow> args \<Rightarrow> int \<Rightarrow> int
    \<Rightarrow> int \<times> int \<times> int \<times> ('c, 'p) world \<Rightarrow> ((exn + int) \<times> ('c, 'p) world) option"
where
  "page_loop get std a since_date until_date =
     run_loop (page_iter get std a since_date until_date)"

text \<open>
  \<^verbatim>\<open>main\<close>: the token warning, the date range and its check, the count, the page plan,
  the loop from \<open>offset = 0\<close>, \<open>page_idx = 0\<close>, \<open>written = 0\<close>, and the closing log
  line. The result is \<open>Inl\<close> of the uncaught exception or \<open>Inr ()\<close>, with the world the
  run leaves behind.
\<close>

definition main_ingest ::
  "('c \<Rightarrow> query \<Rightarrow> (exn + 'r api_row list) \<times> 'c) \<Rightarrow> ('r api_row \<Rightarrow> 'p)
    \<Rightarrow> (string \<Rightarrow> int option) \<Rightarrow> environ \<Rightarrow> args \<Rightarrow> ('c, 'p) world
    \<Rightarrow> ((exn + unit) \<times> ('c, 'p) world) option"
where
  "main_ingest get std strptime env a w0 =
    (let w1 = (if truthy_str (app_token_var env) \<or> truthy_str (socrata_token_var env) then w0
               else w0\<lparr>log := log w0 @ [WarnNoToken]\<rparr>)
     in case since_date_of strptime a env of
          Inl e \<Rightarrow> Some (Inl e, w1)
        | Inr since_date \<Rightarrow>
     (case until_date_of strptime a env of
          Inl e \<Rightarrow> Some (Inl e, w1)
        | Inr until_date \<Rightarrow>
      if until_date < since_date then Some (Inl (SystemExit ''since is after until''), w1)
      else
        (let w2 = w1\<lparr>log := log w1 @ [InfoWhere since_date until_date]\<rparr>
         in case count_total get a since_date until_date w2 of
              (Inl e, w3) \<Rightarrow> Some (Inl e, w3)
            | (Inr total_to_fetch, w3) \<Rightarrow>
         (case pages_of total_to_fetch (page_size a) of
              Inl e \<Rightarrow> Some (Inl e, w3)
            | Inr pages \<Rightarrow>
          (let w4 = w3\<lparr>log := log w3 @ [InfoFetching total_to_fetch pages]\<rparr>
           in case page_loop get std a since_date until_date (0, 0, 0, w4) of
                None \<Rightarrow> None
              | Some (Inl e, w5) \<Rightarrow> Some (Inl e, w5)
              | Some (Inr written, w5) \<Rightarrow>
                  Some (Inr (), w5\<lparr>log := log w5 @ [InfoDone written]\<rparr>))))))"

text \<open>
  The remote API of claim C7's assumption: a fixed list of the rows that match the filter,
  in the requested order, of which every page query returns the slice at its offset, and
  whose length the count query returns. It has no state and never fails.
\<close>

definition consistent_api :: "'r list \<Rightarrow> unit \<Rightarrow> query \<Rightarrow> (exn + 'r api_row list) \<times> unit" where
  "consistent_api matching c q =
    (case q of
       CountQuery _ _ \<Rightarrow> (Inr [CountRow (int (length matching))], c)
     | PageQuery _ _ n k \<Rightarrow> (Inr (map DataRow (take (nat n) (drop (nat k) matching))), c))"

text \<open>The number of rows in the files written.\<close>

definition rows_written :: "('c, 'p) world \<Rightarrow> nat" where
  "rows_written w = sum_list (map (\<lambda>f. length (snd f)) (files w))"

text \<open>
  The same API behind a client that keeps the list of the queries it has been sent.
\<close>

definition recording_api ::
  "'r list \<Rightarrow> query list \<Rightarrow> query \<Rightarrow> (exn + 'r api_row list) \<times> query list"
where
  "recording_api matching sent q = (fst (consistent_api matching () q), sent @ [q])"

text \<open>
  The number of rows claim C7 expects a run to write: \<^verbatim>\<open>min(total, max_rows)\<close>, or the
  total when no \<open>max_rows\<close> is set.
\<close>

definition expected_rows :: "int option \<Rightarrow> nat \<Rightarrow> nat" where
  "expected_rows max_rows n = (case max_rows of None \<Rightarrow> n | Some m \<Rightarrow> min n (nat m))"

text \<open>
  The run of the repository's integration test: \<^verbatim>\<open>--limit 5 --page-size 3\<close>, defaults
  elsewhere, a token in the environment, against the test's \<^verbatim>\<open>DummyClient(pages=2)\<close>,
  which answers its first two calls with as many rows as the query's limit and every later
  call with no rows.
\<close>

definition test_args :: args where
  "test_args = \<lparr>years = 5, page_size = 3, limit = Some 5, max_retries = 5, dry_run = False,
                 since = None, until = None\<rparr>"

definition test_environ :: environ where
  "test_environ = \<lparr>app_token_var = Some ''fake'', socrata_token_var = None, since_var = None,
                    until_var = None, years_back = 5, today = 20089\<rparr>"

definition no_strptime :: "string \<Rightarrow> int option" where
  "no_strptime s = None"

definition dummy_client :: "nat \<Rightarrow> nat \<Rightarrow> query \<Rightarrow> (exn + nat api_row list) \<times> nat" where
  "dummy_client pages calls q =
    (case q of
       CountQuery _ _ \<Rightarrow> (if Suc calls \<le> pages then (Inr [DataRow 0], Suc calls) else (Inr [], Suc calls))
     | PageQuery _ _ n k \<Rightarrow>
         (if Suc calls \<le> pages then (Inr (map DataRow [0..<nat n]), Suc calls)
          else (Inr [], Suc calls)))"

definition row_of :: "nat api_row \<Rightarrow> nat" where
  "row_of r = (case r of CountRow n \<Rightarrow> 0 | DataRow k \<Rightarrow> k)"

definition unit_world :: "(unit, nat) world" where
  "unit_world = \<lparr>client = (), log = [], slept = [], files = []\<rparr>"

definition dummy_world :: "(nat, nat) world" where
  "dummy_world = \<lparr>client = 0, log = [], slept = [], files = []\<rparr>"

definition recording_world :: "(query list, nat) world" where
  "recording_world = \<lparr>client = [], log = [], slept = [], files = []\<rparr>"

text \<open>
  The value of \<open>written\<close> at which the loop is expected to stop, read off the code's own
  test of the limit.
\<close>

definition cap_of :: "args \<Rightarrow> nat \<Rightarrow> int" where
  "cap_of a N = (if truthy_int (limit a) then min (int N) (the (limit a)) else int N)"

section \<open>Timestamps, the calendar and the civic time zone\<close>

text \<open>
  A timestamp is pandas' \<^verbatim>\<open>datetime64[ns]\<close>: a count of nanoseconds since 1970-01-01
  00:00:00, and a date is (year, month, day). The two conversions between day numbers and
  dates of the proleptic Gregorian calendar stand for the library's \<^verbatim>\<open>.dt\<close> accessors.
\<close>

definition days_from_civil :: "int \<Rightarrow> int \<Rightarrow> int \<Rightarrow> int" where
  "days_from_civil y m d =
    (let y' = (if m \<le> 2 then y - 1 else y);
         era = y' div 400;
         yoe = y' - era * 400;
         mp = (m + 9) mod 12;
         doy = (153 * mp + 2) div 5 + d - 1;
         doe = yoe * 365 + yoe div 4 - yoe div 100 + doy
     in era * 146097 + doe - 719468)"

definition civil_from_days :: "int \<Rightarrow> int \<times> int \<times> int" where
  "civil_from_days z0 =
    (let z = z0 + 719468;
         era = z div 146097;
         doe = z - era * 146097;
         yoe = (doe - doe div 1460 + doe div 36524 - doe div 146096) div 365;
         doy = doe - (365 * yoe + yoe div 4 - yoe div 100);
         mp = (5 * doy + 2) div 153;
         d = doy - (153 * mp + 2) div 5 + 1;
         m = (if mp < 10 then mp + 3 else mp - 9);
         y = yoe + era * 400 + (if m \<le> 2 then 1 else 0)
     in (y, m, d))"

text \<open>The day of the week of a day number, Monday = 0 (1970-01-01 was a Thursday).\<close>

definition weekday :: "int \<Rightarrow> int" where
  "weekday days = (days + 3) mod 7"

definition day_names :: "string list" where
  "day_names = [''Monday'', ''Tuesday'', ''Wednesday'', ''Thursday'', ''Friday'', ''Saturday'',
                ''Sunday'']"

definition month_names :: "string list" where
  "month_names = [''January'', ''February'', ''March'', ''April'', ''May'', ''June'', ''July'',
                  ''August'', ''September'', ''October'', ''November'', ''December'']"

text \<open>
  A time zone is the function from an instant (seconds since the epoch, UTC) to the offset
  of local time from UTC in seconds. \<^verbatim>\<open>pytz.timezone("America/New_York")\<close> is a table of
  the tz database; \<open>america_new_york\<close> is that table for the years 2007 to 2037, which hold
  the data set (2010 onwards): UTC\<open>-\<close>4 from the second Sunday of March, 02:00 standard time,
  to the first Sunday of November, 02:00 daylight time, and UTC\<open>-\<close>5 otherwise. The table has
  other rules before 2007 and no change of clock after 2037: for instants outside those
  years the definition is not that table.
\<close>

definition first_sunday :: "int \<Rightarrow> int \<Rightarrow> int" where
  "first_sunday y m = 1 + (6 - weekday (days_from_civil y m 1)) mod 7"

definition america_new_york :: "int \<Rightarrow> int" where
  "america_new_york t =
    (let y = fst (civil_from_days (t div 86400));
         dst_start = days_from_civil y 3 (first_sunday y 3 + 7) * 86400 + 7 * 3600;
         dst_end = days_from_civil y 11 (first_sunday y 11) * 86400 + 6 * 3600
     in if dst_start \<le> t \<and> t < dst_end then - 14400 else - 18000)"

text \<open>
  The wall-clock reading, in nanoseconds, of an instant in a zone, and its broken-down
  fields.
\<close>

definition wall_clock :: "(int \<Rightarrow> int) \<Rightarrow> int \<Rightarrow> int" where
  "wall_clock tz t = t + tz (t div 1000000000) * 1000000000"

definition date_of :: "int \<Rightarrow> int \<times> int \<times> int" where
  "date_of wall = civil_from_days (wall div 86400000000000)"

definition hour_of :: "int \<Rightarrow> int" where
  "hour_of wall = (wall div 3600000000000) mod 24"

definition minute_of :: "int \<Rightarrow> int" where
  "minute_of wall = (wall div 60000000000) mod 60"

definition second_of :: "int \<Rightarrow> int" where
  "second_of wall = (wall div 1000000000) mod 60"

definition day_of_week_of :: "int \<Rightarrow> int" where
  "day_of_week_of wall = weekday (wall div 86400000000000)"

section \<open>String clean-up\<close>

text \<open>
  \<^verbatim>\<open>str.strip()\<close> and \<^verbatim>\<open>str.title()\<close> on ASCII text: the white space of Python is the
  characters 9 to 13 and 28 to 32, and the cased characters are the letters.
\<close>

definition is_space :: "char \<Rightarrow> bool" where
  "is_space c = (let n = (of_char c :: nat) in (9 \<le> n \<and> n \<le> 13) \<or> (28 \<le> n \<and> n \<le> 32))"

definition is_lower :: "char \<Rightarrow> bool" where
  "is_lower c = (let n = (of_char c :: nat) in 97 \<le> n \<and> n \<le> 122)"

definition is_upper :: "char \<Rightarrow> bool" where
  "is_upper c = (let n = (of_char c :: nat) in 65 \<le> n \<and> n \<le> 90)"

definition to_upper :: "char \<Rightarrow> char" where
  "to_upper c = (if is_lower c then char_of ((of_char c :: nat) - 32) else c)"

definition to_lower :: "char \<Rightarrow> char" where
  "to_lower c = (if is_upper c then char_of ((of_char c :: nat) + 32) else c)"

definition strip :: "string \<Rightarrow> string" where
  "strip s = rev (dropWhile is_space (rev (dropWhile is_space s)))"

fun title_from :: "bool \<Rightarrow> string \<Rightarrow> string" where
  "title_from previous_is_cased [] = []"
| "title_from previous_is_cased (c # cs) =
    (if is_lower c then (if previous_is_cased then c else to_upper c) # title_from True cs
     else if is_upper c then (if previous_is_cased then to_lower c else c) # title_from True cs
     else c # title_from False cs)"

definition title :: "string \<Rightarrow> string" where
  "title s = title_from False s"

section \<open>The transform: \<^verbatim>\<open>process_311.py\<close>\<close>

text \<open>
  A data frame is its column names and its rows. A row is a record with one field for each
  column the code knows; \<open>None\<close> is the missing value (\<^verbatim>\<open>NaN\<close>, \<^verbatim>\<open>NaT\<close>, \<^verbatim>\<open><NA>\<close>), and
  the field of a column that the frame does not have is \<open>None\<close> as well, as after
  \<^verbatim>\<open>pd.concat\<close> of pages with different columns.

  The raw frame has the columns of \<^verbatim>\<open>SELECT_COLS\<close>. \<open>tz_aware\<close> is the dtype of its
  timestamp columns: time-zone aware (the values are then instants in UTC) or naive.
\<close>

record raw_row =
  unique_key :: "string option"
  created_date :: "int option"
  closed_date :: "int option"
  resolution_action_updated_date :: "int option"
  agency :: "string option"
  complaint_type :: "string option"
  descriptor :: "string option"
  status :: "string option"
  borough :: "string option"
  incident_zip :: "string option"
  city :: "string option"
  open_data_channel_type :: "string option"
  latitude :: "real option"
  longitude :: "real option"

record raw_frame =
  raw_columns :: "string list"
  tz_aware :: bool
  raw_rows :: "raw_row list"

text \<open>
  The clean frame has the columns of \<^verbatim>\<open>keep\<close> that exist. \<open>created_dt\<close> is the instant
  of creation (its zone is New York; the calendar fields are its wall-clock reading there).
\<close>

record clean_row =
  unique_key :: "string option"
  created_dt :: int
  date :: "int \<times> int \<times> int"
  hour :: int
  day_of_week :: int
  dow_name :: string
  month :: int
  month_name :: string
  is_holiday :: bool
  borough :: "string option"
  complaint_type :: "string option"
  descriptor :: "string option"
  agency :: "string option"
  status :: "string option"
  open_data_channel_type :: "string option"
  response_hours :: "real option"
  within_sla :: bool
  latitude :: "real option"
  longitude :: "real option"
  incident_zip :: "string option"
  city :: "string option"

record clean_frame =
  columns :: "string list"
  rows :: "clean_row list"

text \<open>
  The state of the module after import. \<open>US\<close> is the class of the \<^verbatim>\<open>holidays\<close> package
  when the import succeeds: from keyword arguments (the years) to the calendar, a predicate
  on dates. \<open>SLA_HOURS\<close> is the threshold read from the environment, a real number in place
  of the float.
\<close>

record module =
  US :: "(int list \<Rightarrow> int \<times> int \<times> int \<Rightarrow> bool) option"
  HOLIDAYS_AVAILABLE :: bool
  SLA_HOURS :: real
  import_warnings :: "string list"

definition import_module :: "(int list \<Rightarrow> int \<times> int \<times> int \<Rightarrow> bool) option \<Rightarrow> real \<Rightarrow> module" where
  "import_module holidays_package sla =
    (case holidays_package of
       Some cls \<Rightarrow>
         \<lparr>US = Some cls, HOLIDAYS_AVAILABLE = True, SLA_HOURS = sla, import_warnings = []\<rparr>
     | None \<Rightarrow>
         \<lparr>US = None, HOLIDAYS_AVAILABLE = False, SLA_HOURS = sla,
          import_warnings = [''python-holidays not installed; is_holiday will be all False.'']\<rparr>)"

text \<open>\<^verbatim>\<open>s.fillna(t)\<close> on one value.\<close>

fun fillna :: "'a option \<Rightarrow> 'a option \<Rightarrow> 'a option" where
  "fillna None y = y"
| "fillna (Some x) y = Some x"

text \<open>
  \<^verbatim>\<open>(response_end - created).dt.total_seconds() / 3600.0\<close>, missing where
  \<open>response_end\<close> is missing. The difference is a count of nanoseconds; the quotient is
  exact here where the float is rounded.
\<close>

definition hours_between :: "int option \<Rightarrow> int \<Rightarrow> real option" where
  "hours_between response_end created =
    (case response_end of
       None \<Rightarrow> None
     | Some e \<Rightarrow> Some (real_of_int (e - created) / 1000000000 / 3600))"

text \<open>\<^verbatim>\<open>Series.le(SLA_HOURS)\<close> on one value: a comparison with \<^verbatim>\<open>NaN\<close> is \<^verbatim>\<open>False\<close>.\<close>

definition le_sla :: "real option \<Rightarrow> real \<Rightarrow> bool" where
  "le_sla h sla = (case h of None \<Rightarrow> False | Some x \<Rightarrow> x \<le> sla)"

text \<open>The clean-up of one text value (\<^verbatim>\<open>.astype("string").str.strip()\<close>) and of the city.\<close>

definition str_strip :: "string option \<Rightarrow> string option" where
  "str_strip s = map_option strip s"

definition city_clean :: "bool \<Rightarrow> string option \<Rightarrow> string option \<Rightarrow> string option" where
  "city_clean has_borough city0 borough0 =
    (let c1 = (if has_borough then fillna city0 borough0 else city0);
         c2 = map_option (\<lambda>s. strip (title s)) c1
     in fillna c2 (Some ''Unknown''))"

text \<open>
  The work of \<^verbatim>\<open>engineer\<close> on one row whose \<^verbatim>\<open>created_date\<close> is \<open>created\<close> and whose
  \<^verbatim>\<open>created_dt\<close> is \<open>local\<close>, given the zone, the holiday calendar and the columns of the
  frame.
\<close>

definition engineer_row ::
  "real \<Rightarrow> (int \<Rightarrow> int) \<Rightarrow> (int \<times> int \<times> int \<Rightarrow> bool) \<Rightarrow> string list \<Rightarrow> raw_row \<Rightarrow> int \<Rightarrow> int
    \<Rightarrow> clean_row"
where
  "engineer_row sla tz ny_holidays cols r created local =
    (let response_end = fillna (closed_date r) (resolution_action_updated_date r);
         response_hours = hours_between response_end created;
         wall = wall_clock tz local;
         clean = (\<lambda>c v. if c \<in> set cols then str_strip v else v);
         borough' = clean ''borough'' (raw_row.borough r);
         city' = clean ''city'' (raw_row.city r)
     in \<lparr>unique_key = raw_row.unique_key r,
         created_dt = local,
         date = date_of wall,
         hour = hour_of wall,
         day_of_week = day_of_week_of wall,
         dow_name = day_names ! nat (day_of_week_of wall),
         month = fst (snd (date_of wall)),
         month_name = month_names ! nat (fst (snd (date_of wall)) - 1),
         is_holiday = ny_holidays (date_of wall),
         borough = borough',
         complaint_type = clean ''complaint_type'' (raw_row.complaint_type r),
         descriptor = clean ''descriptor'' (raw_row.descriptor r),
         agency = clean ''agency'' (raw_row.agency r),
         status = clean ''status'' (raw_row.status r),
         open_data_channel_type =
           clean ''open_data_channel_type'' (raw_row.open_data_channel_type r),
         response_hours = response_hours,
         within_sla = le_sla response_hours sla,
         latitude = raw_row.latitude r,
         longitude = raw_row.longitude r,
         incident_zip = clean ''incident_zip'' (raw_row.incident_zip r),
         city = (if ''city'' \<in> set cols then city_clean (''borough'' \<in> set cols) city' borough'
                 else city')\<rparr>)"

text \<open>The list \<^verbatim>\<open>keep\<close> and the columns that \<^verbatim>\<open>engineer\<close> adds to the frame.\<close>

definition keep :: "string list" where
  "keep = [''unique_key'', ''created_dt'', ''date'', ''hour'', ''day_of_week'', ''dow_name'',
           ''month'', ''month_name'', ''is_holiday'', ''borough'', ''complaint_type'',
           ''descriptor'', ''agency'', ''status'', ''open_data_channel_type'',
           ''response_hours'', ''within_sla'', ''latitude'', ''longitude'', ''incident_zip'',
           ''city'']"

definition derived_columns :: "string list" where
  "derived_columns = [''response_hours'', ''within_sla'', ''created_dt'', ''date'', ''hour'',
                      ''day_of_week'', ''dow_name'', ''month'', ''month_name'', ''is_holiday'']"

text \<open>
  \<^verbatim>\<open>tz_localize('UTC')\<close> reads a naive timestamp as the instant with the same count of
  nanoseconds; \<^verbatim>\<open>tz_convert(tz)\<close> changes the zone of an aware timestamp and leaves the
  instant as it is.
\<close>

definition tz_localize_utc :: "int \<Rightarrow> int" where
  "tz_localize_utc naive = naive"

definition tz_convert :: "int \<Rightarrow> int" where
  "tz_convert instant = instant"

text \<open>The rows with a creation time, each with that time.\<close>

fun with_created :: "raw_row list \<Rightarrow> (raw_row \<times> int) list" where
  "with_created [] = []"
| "with_created (r # rs) =
    (case created_date r of
       None \<Rightarrow> with_created rs
     | Some t \<Rightarrow> (r, t) # with_created rs)"

text \<open>
  The holiday block: with the package, membership in \<^verbatim>\<open>US(state='NY', years=ys)\<close>;
  without it, \<^verbatim>\<open>False\<close> for every date.
\<close>

definition holiday_calendar :: "module \<Rightarrow> int list \<Rightarrow> int \<times> int \<times> int \<Rightarrow> bool" where
  "holiday_calendar m ys =
    (if HOLIDAYS_AVAILABLE m
     then (case US m of Some cls \<Rightarrow> cls ys | None \<Rightarrow> (\<lambda>d. False))
     else (\<lambda>d. False))"

text \<open>
  \<^verbatim>\<open>engineer\<close>. Indexing a column that the frame lacks raises \<^verbatim>\<open>KeyError\<close>: the three
  timestamp columns are indexed without a test. Whether the creation column is naive
  (localised as UTC, then converted) or aware (converted), the instant is the stored value
  and the calendar fields are read in the zone, which is
  \<^verbatim>\<open>pytz.timezone("America/New_York")\<close>. The years handed to \<open>US\<close> are the sorted distinct
  local years.
\<close>

definition engineer :: "module \<Rightarrow> raw_frame \<Rightarrow> exn + clean_frame" where
  "engineer m df =
    (if ''created_date'' \<notin> set (raw_columns df) then Inl (KeyError ''created_date'')
     else if ''closed_date'' \<notin> set (raw_columns df) then Inl (KeyError ''closed_date'')
     else if ''resolution_action_updated_date'' \<notin> set (raw_columns df)
       then Inl (KeyError ''resolution_action_updated_date'')
     else
       (let kept = with_created (raw_rows df);
            tz = america_new_york;
            created_dt =
              (if \<not> tz_aware df then map (\<lambda>(r, t). tz_convert (tz_localize_utc t)) kept
               else map (\<lambda>(r, t). tz_convert t) kept);
            years = sort (remdups (map (\<lambda>t. fst (date_of (wall_clock tz t))) created_dt));
            ny_holidays = holiday_calendar m years;
            all_columns = raw_columns df @ derived_columns
        in Inr \<lparr>columns = filter (\<lambda>c. c \<in> set all_columns) keep,
                rows = map (\<lambda>((r, t), local).
                              engineer_row (SLA_HOURS m) tz ny_holidays (raw_columns df) r t local)
                         (zip kept created_dt)\<rparr>))"

text \<open>
  Rows for the scenarios of the specification: a ticket created 2024-06-01 10:00:00 and
  closed four hours later; one created 2024-01-01 00:00:00 that was never closed or
  updated; one whose closure is stamped an hour before its creation.
\<close>

definition blank_row :: raw_row where
  "blank_row =
    \<lparr>raw_row.unique_key = None, created_date = None, closed_date = None,
     resolution_action_updated_date = None, raw_row.agency = None,
     raw_row.complaint_type = None, raw_row.descriptor = None, raw_row.status = None,
     raw_row.borough = None, raw_row.incident_zip = None, raw_row.city = None,
     raw_row.open_data_channel_type = None, raw_row.latitude = None,
     raw_row.longitude = None\<rparr>"

definition closed_row :: raw_row where
  "closed_row = blank_row\<lparr>raw_row.unique_key := Some ''k1'',
     created_date := Some 1717236000000000000, closed_date := Some 1717250400000000000,
     raw_row.borough := Some '' BRONX '', raw_row.complaint_type := Some ''Noise''\<rparr>"

definition open_row :: raw_row where
  "open_row = blank_row\<lparr>raw_row.unique_key := Some ''k2'',
     created_date := Some 1704067200000000000\<rparr>"

definition early_row :: raw_row where
  "early_row = blank_row\<lparr>raw_row.unique_key := Some ''k3'',
     created_date := Some 1717236000000000000, closed_date := Some 1717232400000000000\<rparr>"

definition select_cols :: "string list" where
  "select_cols = [''unique_key'', ''created_date'', ''closed_date'',
     ''resolution_action_updated_date'', ''agency'', ''complaint_type'', ''descriptor'',
     ''status'', ''borough'', ''incident_zip'', ''city'', ''open_data_channel_type'',
     ''latitude'', ''longitude'']"

definition frame_of :: "raw_row list \<Rightarrow> raw_frame" where
  "frame_of rs = \<lparr>raw_columns = select_cols, tz_aware = False, raw_rows = rs\<rparr>"

definition new_year :: "int list \<Rightarrow> int \<times> int \<times> int \<Rightarrow> bool" where
  "new_year ys d = (snd d = (1, 1) \<or> snd d = (12, 31))"

section \<open>Validation and publication: \<^verbatim>\<open>main\<close> of \<^verbatim>\<open>process_311.py\<close>\<close>

text \<open>
  What \<^verbatim>\<open>main\<close> reads and writes: the page files under \<^verbatim>\<open>data/raw\<close> in name order, the
  clean file \<^verbatim>\<open>data/processed/nyc311_clean.parquet\<close> (\<open>None\<close> while it does not exist),
  the files of \<^verbatim>\<open>data/processed_part\<close> by partition (year, month), and what is printed.
\<close>

datatype message = SavedClean nat | WrotePartitioned | SkippingPartitioned

record store =
  raw_files :: "raw_frame list"
  clean_parquet :: "clean_frame option"
  processed_part :: "int \<times> int \<Rightarrow> clean_frame option"
  printed :: "message list"

text \<open>
  \<^verbatim>\<open>load_raw\<close>: no file is a \<^verbatim>\<open>SystemExit\<close>; otherwise the pages are concatenated, the
  columns being the union in order of appearance. The pages are taken to share the dtype of
  their timestamp columns.
\<close>

definition load_raw :: "store \<Rightarrow> exn + raw_frame" where
  "load_raw st =
    (case raw_files st of
       [] \<Rightarrow> Inl (SystemExit ''No raw parquet files found in data/raw/. Run ingest_311.py first.'')
     | f # fs \<Rightarrow>
         Inr \<lparr>raw_columns = remdups (concat (map raw_columns (f # fs))),
              tz_aware = tz_aware f,
              raw_rows = concat (map raw_rows (f # fs))\<rparr>)"

definition expected :: "string list" where
  "expected = [''unique_key'', ''created_dt'', ''borough'', ''complaint_type'', ''descriptor'',
               ''response_hours'', ''within_sla'', ''hour'', ''dow_name'', ''month_name'']"

text \<open>\<^verbatim>\<open>Series.dropna()\<close>.\<close>

fun dropna :: "'a option list \<Rightarrow> 'a list" where
  "dropna [] = []"
| "dropna (None # xs) = dropna xs"
| "dropna (Some x # xs) = x # dropna xs"

text \<open>
  \<^verbatim>\<open>ds.write_dataset\<close> partitioned by year and month of the local creation time with
  \<^verbatim>\<open>existing_data_behavior="overwrite_or_ignore"\<close>: the file of every partition that has
  rows is replaced, the others are left alone. The partition columns are in the path.
\<close>

definition partition_key :: "clean_row \<Rightarrow> int \<times> int" where
  "partition_key r = (fst (date r), month r)"

definition write_dataset ::
  "clean_frame \<Rightarrow> (int \<times> int \<Rightarrow> clean_frame option) \<Rightarrow> int \<times> int \<Rightarrow> clean_frame option"
where
  "write_dataset clean part k =
    (if k \<in> set (map partition_key (rows clean))
     then Some \<lparr>columns = filter (\<lambda>c. c \<noteq> ''month'') (columns clean),
                rows = filter (\<lambda>r. partition_key r = k) (rows clean)\<rparr>
     else part k)"

text \<open>
  \<^verbatim>\<open>main\<close>. The three \<^verbatim>\<open>assert\<close> statements precede the first write. \<open>pyarrow\<close> tells
  whether the partitioned write goes through; when it does not, the \<^verbatim>\<open>except\<close> clause
  prints and the run still ends normally.
\<close>

definition main_process :: "module \<Rightarrow> bool \<Rightarrow> store \<Rightarrow> (exn + unit) \<times> store" where
  "main_process m pyarrow st =
    (case load_raw st of
       Inl e \<Rightarrow> (Inl e, st)
     | Inr df \<Rightarrow>
    (case engineer m df of
       Inl e \<Rightarrow> (Inl e, st)
     | Inr clean \<Rightarrow>
       (let missing = filter (\<lambda>c. c \<notin> set (columns clean)) expected
        in if missing \<noteq> [] then (Inl (AssertionError ''Missing columns''), st)
           else if \<not> distinct (map clean_row.unique_key (rows clean))
             then (Inl (AssertionError ''unique_key has duplicates''), st)
           else if \<not> list_all (\<lambda>h. 0 \<le> h) (dropna (map response_hours (rows clean)))
             then (Inl (AssertionError ''negative response_hours found''), st)
           else
             (let st1 = st\<lparr>clean_parquet := Some clean,
                            printed := printed st @ [SavedClean (length (rows clean))]\<rparr>
              in if pyarrow
                 then (Inr (), st1\<lparr>processed_part := write_dataset clean (processed_part st1),
                                    printed := printed st1 @ [WrotePartitioned]\<rparr>)
                 else (Inr (), st1\<lparr>printed := printed st1 @ [SkippingPartitioned]\<rparr>)))))"

text \<open>
  Stores for the examples: a dataset published by an earlier run, with one page of raw
  files that is valid, one with a repeated key and one with a negative response time.
\<close>

definition old_clean :: clean_frame where
  "old_clean = \<lparr>columns = keep, rows = []\<rparr>"

definition store_of :: "raw_row list \<Rightarrow> store" where
  "store_of rs = \<lparr>raw_files = [frame_of rs], clean_parquet = Some old_clean,
                  processed_part = (\<lambda>k. None), printed = []\<rparr>"

text \<open>The sorted distinct local years of the rows with a creation time.\<close>

definition local_years :: "(int \<Rightarrow> int) \<Rightarrow> raw_frame \<Rightarrow> int list" where
  "local_years tz df =
     sort (remdups (map (\<lambda>(r, t). fst (date_of (wall_clock tz t))) (with_created (raw_rows df))))"

text \<open>The clean rows of the three example tickets, without the holidays package.\<close>

definition closed_clean :: clean_row where
  "closed_clean =
    \<lparr>clean_row.unique_key = Some ''k1'', created_dt = 1717236000000000000,
     date = (2024, 6, 1), hour = 6, day_of_week = 5, dow_name = ''Saturday'', month = 6,
     month_name = ''June'', is_holiday = False, borough = Some ''BRONX'',
     complaint_type = Some ''Noise'', descriptor = None, agency = None, status = None,
     open_data_channel_type = None, response_hours = Some 4, within_sla = True,
     latitude = None, longitude = None, incident_zip = None, city = Some ''Bronx''\<rparr>"

definition open_clean :: clean_row where
  "open_clean =
    \<lparr>clean_row.unique_key = Some ''k2'', created_dt = 1704067200000000000,
     date = (2023, 12, 31), hour = 19, day_of_week = 6, dow_name = ''Sunday'', month = 12,
     month_name = ''December'', is_holiday = False, borough = None, complaint_type = None,
     descriptor = None, agency = None, status = None, open_data_channel_type = None,
     response_hours = None, within_sla = False, latitude = None, longitude = None,
     incident_zip = None, city = Some ''Unknown''\<rparr>"

definition early_clean :: clean_row where
  "early_clean =
    \<lparr>clean_row.unique_key = Some ''k3'', created_dt = 1717236000000000000,
     date = (2024, 6, 1), hour = 6, day_of_week = 5, dow_name = ''Saturday'', month = 6,
     month_name = ''June'', is_holiday = False, borough = None, complaint_type = None,
     descriptor = None, agency = None, status = None, open_data_channel_type = None,
     response_hours = Some (- 1), within_sla = True, latitude = None, longitude = None,
     incident_zip = None, city = Some ''Unknown''\<rparr>"

section \<open>The precomputed summaries: \<^verbatim>\<open>precompute_summaries.py\<close>\<close>

text \<open>
  The SQL the script runs, over the rows of the partitioned dataset. A comparison with
  \<^verbatim>\<open>NULL\<close> is \<^verbatim>\<open>NULL\<close>; \<^verbatim>\<open>CASE WHEN c THEN 1 ELSE 0 END\<close> is 1 only where \<open>c\<close> is true;
  \<^verbatim>\<open>avg\<close> of no value is \<^verbatim>\<open>NULL\<close>; \<^verbatim>\<open>median\<close> skips \<^verbatim>\<open>NULL\<close> and takes the mean of the two
  middle values of an even count. The rates are exact reals in place of doubles.
\<close>

definition sql_le :: "real option \<Rightarrow> real \<Rightarrow> bool option" where
  "sql_le x y = map_option (\<lambda>v. v \<le> y) x"

definition sql_gt :: "real option \<Rightarrow> real \<Rightarrow> bool option" where
  "sql_gt x y = map_option (\<lambda>v. y < v) x"

definition case_when :: "bool option \<Rightarrow> real" where
  "case_when c = (if c = Some True then 1 else 0)"

definition sql_avg :: "real list \<Rightarrow> real option" where
  "sql_avg xs = (if xs = [] then None else Some (sum_list xs / real (length xs)))"

definition sql_median :: "real option list \<Rightarrow> real option" where
  "sql_median xs =
    (let ys = sort (dropna xs); n = length ys
     in if n = 0 then None
        else if odd n then Some (ys ! (n div 2))
        else Some ((ys ! (n div 2 - 1) + ys ! (n div 2)) / 2))"

text \<open>
  \<^verbatim>\<open>GROUP BY\<close>: the distinct keys in order of first appearance, each with the rows that
  have it (the order of the result rows is left out: \<^verbatim>\<open>ORDER BY\<close> does not change them).
\<close>

definition group_by :: "('r \<Rightarrow> 'k) \<Rightarrow> 'r list \<Rightarrow> ('k \<times> 'r list) list" where
  "group_by key xs = map (\<lambda>k. (k, filter (\<lambda>r. key r = k) xs)) (remdups (map key xs))"

text \<open>
  The three tables. A key is the tuple of the grouping columns; the session time zone of
  the engine, in which it reads the date, the day name and the hour of \<^verbatim>\<open>created_dt\<close>, is a
  parameter. \<^verbatim>\<open>WHERE created_dt IS NOT NULL\<close> holds of every clean row.
\<close>

record daily_summary =
  daily_key :: "(int \<times> int \<times> int) \<times> string option \<times> string option"
  tickets :: nat
  median_response :: "real option"
  pct_within :: "real option"

record complaint_type_summary =
  complaint_type_key :: "string option \<times> string option"
  tickets :: nat
  breach_rate :: real

record dow_hour_summary =
  dow_hour_key :: "string \<times> int \<times> string option \<times> string option"
  tickets :: nat
  breach_rate :: "real option"
  median_response :: "real option"

definition sql_daily :: "(int \<Rightarrow> int) \<Rightarrow> real \<Rightarrow> clean_row list \<Rightarrow> daily_summary list" where
  "sql_daily session_tz sla part =
    map (\<lambda>(k, g).
          \<lparr>daily_key = k,
           daily_summary.tickets = length g,
           daily_summary.median_response = sql_median (map response_hours g),
           pct_within = sql_avg (map (\<lambda>r. case_when (sql_le (response_hours r) sla)) g)\<rparr>)
      (group_by (\<lambda>r. (date_of (wall_clock session_tz (created_dt r)), clean_row.borough r,
                       clean_row.complaint_type r)) part)"

text \<open>
  The complaint-type table is built in pandas from the daily one: \<open>breaches\<close> is
  \<^verbatim>\<open>tickets * (1.0 - pct_within)\<close>, both columns are summed by (complaint type, borough),
  and the rate is their quotient with \<^verbatim>\<open>fillna(0.0)\<close>. No daily row, no table.
\<close>

definition complaint_type_table :: "daily_summary list \<Rightarrow> complaint_type_summary list option" where
  "complaint_type_table df_daily =
    (if df_daily = [] then None
     else Some
       (map (\<lambda>(k, g).
              (let n = sum_list (map daily_summary.tickets g);
                   breaches = sum_list (dropna (map (\<lambda>d. map_option
                                 (\<lambda>p. real (daily_summary.tickets d) * (1 - p)) (pct_within d)) g))
               in \<lparr>complaint_type_key = k,
                   complaint_type_summary.tickets = n,
                   complaint_type_summary.breach_rate =
                     (if n = 0 then 0 else breaches / real n)\<rparr>))
          (group_by (\<lambda>d. (snd (snd (daily_key d)), fst (snd (daily_key d)))) df_daily)))"

definition sql_dow :: "(int \<Rightarrow> int) \<Rightarrow> real \<Rightarrow> clean_row list \<Rightarrow> dow_hour_summary list" where
  "sql_dow session_tz sla part =
    map (\<lambda>(k, g).
          \<lparr>dow_hour_key = k,
           dow_hour_summary.tickets = length g,
           dow_hour_summary.breach_rate =
             sql_avg (map (\<lambda>r. case_when (sql_gt (response_hours r) sla)) g),
           dow_hour_summary.median_response = sql_median (map response_hours g)\<rparr>)
      (group_by (\<lambda>r. (day_names ! nat (day_of_week_of (wall_clock session_tz (created_dt r))),
                       hour_of (wall_clock session_tz (created_dt r)), clean_row.borough r,
                       clean_row.complaint_type r)) part)"

text \<open>
  Two more tickets of the same day, hour, borough and complaint type as the closed one: one
  still open, one closed after thirty hours.
\<close>

definition pending_clean :: clean_row where
  "pending_clean = closed_clean\<lparr>clean_row.unique_key := Some ''k4'',
     response_hours := None, within_sla := False\<rparr>"

definition late_clean :: clean_row where
  "late_clean = closed_clean\<lparr>clean_row.unique_key := Some ''k5'',
     response_hours := Some 30, within_sla := False\<rparr>"

definition noise_key :: "(int \<times> int \<times> int) \<times> string option \<times> string option" where
  "noise_key = ((2024, 6, 1), Some ''BRONX'', Some ''Noise'')"

definition noise_hour_key :: "string \<times> int \<times> string option \<times> string option" where
  "noise_hour_key = (''Saturday'', 6, Some ''BRONX'', Some ''Noise'')"

section \<open>Properties of \<^verbatim>\<open>get_with_retry\<close>\<close>

lemma backoff_at_step: "min (backoff_at i * 2) 30 = backoff_at (Suc i)"
proof (cases "(2::real) ^ i \<le> 30")
  case True
  then show ?thesis by (simp add: backoff_at_def min_def)
next
  case False
  then have "(30::real) < 2 ^ i" by simp
  then show ?thesis by (simp add: backoff_at_def min_def)
qed

text \<open>One iteration of the loop against a scripted stub.\<close>

lemma retry_from_scripted_step:
  "retry_from (scripted script) q M a b w =
    (if M < a then (Inr None, w)
     else case script (client w) of
        Inr res \<Rightarrow> (Inr (Some res), w\<lparr>client := Suc (client w)\<rparr>)
      | Inl exc \<Rightarrow>
          if is_RequestException exc then
            if a = M
            then (Inl exc, w\<lparr>client := Suc (client w),
                    log := log w @ [WarnRequestFailed a M exc, ErrorMaxRetries]\<rparr>)
            else retry_from (scripted script) q M (a + 1) (min (b * 2) 30)
                   (w\<lparr>client := Suc (client w),
                      log := log w @ [WarnRequestFailed a M exc],
                      slept := slept w @ [b]\<rparr>)
          else (Inl exc, w\<lparr>client := Suc (client w)\<rparr>))"
  by (subst retry_from.simps) (simp add: scripted_def Let_def split: sum.splits)

text \<open>The stub is called at most once for each remaining attempt.\<close>

lemma retry_from_calls:
  "client (snd (retry_from (scripted script) q M a b w)) \<le> client w + nat (M + 1 - a)"
proof (induction "nat (M + 1 - a)" arbitrary: a b w)
  case 0
  then have "M < a" by simp
  then show ?case by (subst retry_from_scripted_step) simp
next
  case (Suc d)
  then have le: "a \<le> M" and d: "d = nat (M + 1 - (a + 1))" by simp_all
  note IH = Suc.hyps(1) [OF d]
  show ?case
  proof (cases "script (client w)")
    case (Inr res)
    with le show ?thesis by (subst retry_from_scripted_step) simp
  next
    case (Inl exc)
    show ?thesis
    proof (cases "is_RequestException exc \<and> a \<noteq> M")
      case True
      have "client (snd (retry_from (scripted script) q M (a + 1) (min (b * 2) 30)
            (w\<lparr>client := Suc (client w), log := log w @ [WarnRequestFailed a M exc],
               slept := slept w @ [b]\<rparr>))) \<le> Suc (client w) + nat (M + 1 - (a + 1))"
        using IH [of "min (b * 2) 30" "w\<lparr>client := Suc (client w),
               log := log w @ [WarnRequestFailed a M exc], slept := slept w @ [b]\<rparr>"] by simp
      with le Inl True show ?thesis
        by (subst retry_from_scripted_step) simp
    next
      case False
      with le Inl show ?thesis
        by (subst retry_from_scripted_step) auto
    qed
  qed
qed

text \<open>
  A run of \<open>j\<close> request errors, none of them on the last permitted attempt, takes the loop
  \<open>j\<close> iterations further, with one warning and one sleep for each.
\<close>

lemma retry_from_fail_run:
  assumes "\<forall>i<j. script (client w + i) = Inl (e i) \<and> is_RequestException (e i)"
    and "a + int j \<le> M"
  shows "retry_from (scripted script) q M a (backoff_at b) w =
         retry_from (scripted script) q M (a + int j) (backoff_at (b + j))
           (w\<lparr>client := client w + j,
              log := log w @ map (\<lambda>i. WarnRequestFailed (a + int i) M (e i)) [0..<j],
              slept := slept w @ map (\<lambda>i. backoff_at (b + i)) [0..<j]\<rparr>)"
  using assms
proof (induction j)
  case 0
  then show ?case by simp
next
  case (Suc j)
  then have IH: "retry_from (scripted script) q M a (backoff_at b) w =
         retry_from (scripted script) q M (a + int j) (backoff_at (b + j))
           (w\<lparr>client := client w + j,
              log := log w @ map (\<lambda>i. WarnRequestFailed (a + int i) M (e i)) [0..<j],
              slept := slept w @ map (\<lambda>i. backoff_at (b + i)) [0..<j]\<rparr>)"
    by simp
  from Suc.prems have f: "script (client w + j) = Inl (e j)" "is_RequestException (e j)"
    and lt: "a + int j < M" by simp_all
  show ?case
    unfolding IH
    by (subst retry_from_scripted_step) (use f lt in \<open>simp add: backoff_at_step add_ac\<close>)
qed

lemma backoff_at_0: "backoff_at 0 = 1"
  by (simp add: backoff_at_def)

text \<open>
  Claim C6, for \<open>max_retries \<ge> 1\<close>. Against a stub whose first \<open>k\<close> calls raise request
  errors \<open>e 0, \<dots>, e (k - 1)\<close>, \<^verbatim>\<open>get_with_retry\<close>
  \<^item> never calls the stub more than \<open>max_retries\<close> times;
  \<^item> when \<open>k = max_retries\<close> (every permitted attempt fails), re-raises the last error after
    exactly \<open>max_retries\<close> calls, having logged one warning for each and the final error
    record, and having slept \<open>min (2 ^ i) 30\<close> after the \<open>i\<close>-th failure (from 0) except
    the last;
  \<^item> when \<open>k < max_retries\<close> and call \<open>k + 1\<close> answers, returns that answer after \<open>k + 1\<close>
    calls, having logged exactly \<open>k\<close> warnings and slept \<open>1, 2, 4, \<dots>\<close> capped at 30.
\<close>

theorem get_with_retry_attempts:
  assumes "1 \<le> M"
    and "\<forall>i<k. script (client w + i) = Inl (e i) \<and> is_RequestException (e i)"
  shows "client (snd (get_with_retry (scripted script) q M w)) \<le> client w + nat M
    \<and> (int k = M \<longrightarrow>
         get_with_retry (scripted script) q M w =
           (Inl (e (k - 1)),
            w\<lparr>client := client w + k,
              log := log w @ map (\<lambda>i. WarnRequestFailed (int i + 1) M (e i)) [0..<k]
                       @ [ErrorMaxRetries],
              slept := slept w @ map backoff_at [0..<k - 1]\<rparr>))
    \<and> (int k < M \<longrightarrow> script (client w + k) = Inr a \<longrightarrow>
         get_with_retry (scripted script) q M w =
           (Inr (Some a),
            w\<lparr>client := client w + k + 1,
              log := log w @ map (\<lambda>i. WarnRequestFailed (int i + 1) M (e i)) [0..<k],
              slept := slept w @ map backoff_at [0..<k]\<rparr>))"
proof (intro conjI impI)
  show "client (snd (get_with_retry (scripted script) q M w)) \<le> client w + nat M"
    using retry_from_calls [of script q M 1 1 w] by (simp add: get_with_retry_def)
next
  assume kM: "int k = M"
  with assms(1) obtain j where k: "k = Suc j" by (cases k) auto
  from assms(2) k have run: "\<forall>i<j. script (client w + i) = Inl (e i) \<and> is_RequestException (e i)"
    and last: "script (client w + j) = Inl (e j)" "is_RequestException (e j)" by simp_all
  from kM k have le: "1 + int j \<le> M" and eq: "1 + int j = M" by simp_all
  have "get_with_retry (scripted script) q M w =
        retry_from (scripted script) q M (1 + int j) (backoff_at (0 + j))
           (w\<lparr>client := client w + j,
              log := log w @ map (\<lambda>i. WarnRequestFailed (1 + int i) M (e i)) [0..<j],
              slept := slept w @ map (\<lambda>i. backoff_at (0 + i)) [0..<j]\<rparr>)"
    unfolding get_with_retry_def
    using retry_from_fail_run [OF run le, of q 0] by (simp add: backoff_at_0)
  also have "\<dots> = (Inl (e j),
            w\<lparr>client := client w + Suc j,
              log := log w @ map (\<lambda>i. WarnRequestFailed (int i + 1) M (e i)) [0..<Suc j]
                       @ [ErrorMaxRetries],
              slept := slept w @ map backoff_at [0..<j]\<rparr>)"
    by (subst retry_from_scripted_step) (use last eq in \<open>simp add: add_ac\<close>)
  finally show "get_with_retry (scripted script) q M w =
           (Inl (e (k - 1)),
            w\<lparr>client := client w + k,
              log := log w @ map (\<lambda>i. WarnRequestFailed (int i + 1) M (e i)) [0..<k]
                       @ [ErrorMaxRetries],
              slept := slept w @ map backoff_at [0..<k - 1]\<rparr>)"
    using k by simp
next
  assume lt: "int k < M" and ok: "script (client w + k) = Inr a"
  from lt have le: "1 + int k \<le> M" by simp
  have "get_with_retry (scripted script) q M w =
        retry_from (scripted script) q M (1 + int k) (backoff_at (0 + k))
           (w\<lparr>client := client w + k,
              log := log w @ map (\<lambda>i. WarnRequestFailed (1 + int i) M (e i)) [0..<k],
              slept := slept w @ map (\<lambda>i. backoff_at (0 + i)) [0..<k]\<rparr>)"
    unfolding get_with_retry_def
    using retry_from_fail_run [OF assms(2) le, of q 0] by (simp add: backoff_at_0)
  also have "\<dots> = (Inr (Some a),
            w\<lparr>client := client w + k + 1,
              log := log w @ map (\<lambda>i. WarnRequestFailed (int i + 1) M (e i)) [0..<k],
              slept := slept w @ map backoff_at [0..<k]\<rparr>)"
    by (subst retry_from_scripted_step) (use ok le in \<open>simp add: add_ac\<close>)
  finally show "get_with_retry (scripted script) q M w =
           (Inr (Some a),
            w\<lparr>client := client w + k + 1,
              log := log w @ map (\<lambda>i. WarnRequestFailed (int i + 1) M (e i)) [0..<k],
              slept := slept w @ map backoff_at [0..<k]\<rparr>)" .
qed

text \<open>
  The two scenarios of the specification: a stub that fails twice and then answers, with
  \<open>max_retries = 5\<close>, returns the answer with exactly two warnings logged; a stub that
  always fails, with \<open>max_retries = 3\<close>, raises after exactly three calls.
\<close>

theorem get_with_retry_attempts_witness:
  "get_with_retry (scripted fails_twice) () 5 stub_world =
     (Inr (Some ''rows''),
      \<lparr>client = 3,
       log = [WarnRequestFailed 1 5 (RequestException ''timeout''),
              WarnRequestFailed 2 5 (RequestException ''timeout'')],
       slept = [1, 2], files = []\<rparr>)
   \<and> get_with_retry (scripted always_fails) () 3 stub_world =
     (Inl (RequestException ''timeout''),
      \<lparr>client = 3,
       log = [WarnRequestFailed 1 3 (RequestException ''timeout''),
              WarnRequestFailed 2 3 (RequestException ''timeout''),
              WarnRequestFailed 3 3 (RequestException ''timeout''),
              ErrorMaxRetries],
       slept = [1, 2], files = []\<rparr>)"
  using get_with_retry_attempts [of 5 2 fails_twice stub_world timeout_exc "()" "''rows''"]
    get_with_retry_attempts [of 3 3 always_fails stub_world timeout_exc "()"]
  by (simp add: fails_twice_def always_fails_def timeout_exc_def stub_world_def backoff_at_def
      upt_rec numeral_2_eq_2 numeral_3_eq_3)

text \<open>
  With \<open>max_retries = 0\<close> the range of attempts is empty: the stub that always fails is
  never called, nothing is raised, and the caller receives \<^verbatim>\<open>None\<close>.
\<close>

theorem get_with_retry_zero_counterexample:
  "get_with_retry (scripted always_fails) () 0 stub_world = (Inr None, stub_world)"
  by (simp add: get_with_retry_def retry_from.simps)

section \<open>Properties of the ingestion run\<close>

lemma page_loop_unfold:
  "page_loop get std a s u st =
     (case page_iter get std a s u st of Inl st' \<Rightarrow> page_loop get std a s u st' | Inr r \<Rightarrow> Some r)"
  unfolding page_loop_def by (rule run_loop.simps)

text \<open>
  A client serves a list of matching rows when every call answers as the consistent API
  does, whatever it does to its own state.
\<close>

lemma consistent_api_answer:
  "fst (consistent_api matching c q) =
     Inr (case q of
            CountQuery _ _ \<Rightarrow> [CountRow (int (length matching))]
          | PageQuery _ _ n k \<Rightarrow> map DataRow (take (nat n) (drop (nat k) matching)))"
  by (simp add: consistent_api_def split: query.splits)

lemma get_with_retry_served:
  assumes "1 \<le> M" and "\<And>c q. fst (get c q) = fst (consistent_api matching () q)"
  shows "get_with_retry get q M w =
           (Inr (Some (case q of
                CountQuery _ _ \<Rightarrow> [CountRow (int (length matching))]
              | PageQuery _ _ n k \<Rightarrow> map DataRow (take (nat n) (drop (nat k) matching)))),
            w\<lparr>client := snd (get (client w) q)\<rparr>)"
proof -
  obtain c' where g: "get (client w) q =
      (Inr (case q of
              CountQuery _ _ \<Rightarrow> [CountRow (int (length matching))]
            | PageQuery _ _ n k \<Rightarrow> map DataRow (take (nat n) (drop (nat k) matching))), c')"
    using assms(2) [of "client w" q]
    by (cases "get (client w) q") (simp add: consistent_api_answer)
  show ?thesis
    unfolding get_with_retry_def
    by (subst retry_from.simps) (use assms(1) in \<open>simp add: g\<close>)
qed

lemma page_iter_served:
  assumes M: "1 \<le> max_retries a" and p: "1 \<le> page_size a"
    and served: "\<And>c q. fst (get c q) = fst (consistent_api matching () q)"
    and inv: "\<And>c q. I c \<Longrightarrow> I (snd (get c q))" and I: "I (client w)"
    and off: "0 \<le> off" "off \<le> int (length matching)"
    and lim: "truthy_int (limit a) \<longrightarrow> off < the (limit a)"
  shows "(\<exists>w'. page_iter get std a s u (off, idx, off, w) =
              Inr (Inr (cap_of a (length matching)), w')
            \<and> I (client w') \<and> set (log w) \<subseteq> set (log w')
            \<and> rows_written w' =
                rows_written w + (if dry_run a then 0 else nat (cap_of a (length matching) - off)))
       \<or> (\<exists>off' w'. page_iter get std a s u (off, idx, off, w) =
              Inl (off', idx + 1, off', w')
            \<and> I (client w') \<and> set (log w) \<subseteq> set (log w')
            \<and> off < off' \<and> off' \<le> int (length matching)
            \<and> (truthy_int (limit a) \<longrightarrow> off' < the (limit a))
            \<and> rows_written w' = rows_written w + (if dry_run a then 0 else nat (off' - off)))"
proof -
  define N where "N = length matching"
  define tl where "tl = (if truthy_int (limit a) then min (page_size a) (the (limit a) - off)
                else page_size a)"
  define rs where "rs = take (nat tl) (drop (nat off) matching)"
  define w1 where "w1 = w\<lparr>client := snd (get (client w) (PageQuery s u tl off))\<rparr>"
  have I1: "I (client w1)" using inv [OF I] by (simp add: w1_def)
  have f1: "files w1 = files w" and l1: "log w1 = log w" by (simp_all add: w1_def)
  have tl1: "1 \<le> tl" using p lim by (auto simp: tl_def)
  have nolim: "\<not> (truthy_int (limit a) \<and> the (limit a) - off \<le> 0)" using lim by auto
  have len: "int (length rs) = min tl (int N - off)"
    using tl1 off by (simp add: rs_def N_def min_def) linarith
  have it: "page_iter get std a s u (off, idx, off, w) =
    (case rs of [] \<Rightarrow> Inr (Inr off, w1)
     | r # rs' \<Rightarrow>
        (let w2 = (if dry_run a
                   then w1\<lparr>log := log w1 @ [InfoDryRun (length rs) (s, idx + 1)]\<rparr>
                   else w1\<lparr>files := files w1 @ [((s, idx + 1), map std (map DataRow rs))],
                           log := log w1 @ [InfoWrote (length rs) (s, idx + 1)]\<rparr>)
         in if int (length rs) < tl then Inr (Inr (off + int (length rs)), w2)
            else if truthy_int (limit a) \<and> the (limit a) \<le> off + int (length rs)
            then Inr (Inr (off + int (length rs)), w2)
            else Inl (off + tl, idx + 1, off + int (length rs), w2)))"
    unfolding page_iter_def
    using nolim
    by (auto simp add: get_with_retry_served [OF M served] tl_def [symmetric] rs_def [symmetric]
          w1_def [symmetric] Let_def split: list.splits)
  show ?thesis
  proof (cases rs)
    case Nil
    with len tl1 off have "off = int N" by (simp add: min_def split: if_splits)
    with Nil it lim I1 f1 l1 show ?thesis
      by (auto simp: cap_of_def N_def min_def rows_written_def)
  next
    case (Cons r rs')
    then have pos: "0 < int (length rs)" by simp
    define w2 where "w2 = (if dry_run a
                   then w1\<lparr>log := log w1 @ [InfoDryRun (length rs) (s, idx + 1)]\<rparr>
                   else w1\<lparr>files := files w1 @ [((s, idx + 1), map std (map DataRow rs))],
                           log := log w1 @ [InfoWrote (length rs) (s, idx + 1)]\<rparr>)"
    have rw: "rows_written w2 = rows_written w + (if dry_run a then 0 else length rs)"
      by (simp add: w2_def rows_written_def f1)
    have I2: "I (client w2)" using I1 by (simp add: w2_def)
    have l2: "set (log w) \<subseteq> set (log w2)" by (auto simp: w2_def l1)
    from it Cons have it': "page_iter get std a s u (off, idx, off, w) =
         (if int (length rs) < tl then Inr (Inr (off + int (length rs)), w2)
            else if truthy_int (limit a) \<and> the (limit a) \<le> off + int (length rs)
            then Inr (Inr (off + int (length rs)), w2)
            else Inl (off + tl, idx + 1, off + int (length rs), w2))"
      by (simp add: w2_def Let_def)
    consider (short) "int (length rs) < tl"
      | (full) "int (length rs) = tl" "truthy_int (limit a) \<and> the (limit a) \<le> off + tl"
      | (more) "int (length rs) = tl" "\<not> (truthy_int (limit a) \<and> the (limit a) \<le> off + tl)"
      using len by (auto simp: min_def split: if_splits)
    then show ?thesis
    proof cases
      case short
      with len have l: "int (length rs) = int N - off" by (simp add: min_def split: if_splits)
      have "cap_of a (length matching) = int N"
        using short l by (auto simp: cap_of_def N_def tl_def min_def split: if_splits)
      with short l it' rw I2 l2 show ?thesis
        by (intro disjI1 exI [of _ w2]) (auto simp: N_def)
    next
      case full
      from full(1) len have le: "tl \<le> int N - off" by (simp add: min_def split: if_splits)
      from full(2) have "tl \<le> the (limit a) - off" by (simp add: tl_def)
      with full(2) have eq: "the (limit a) = off + tl" by simp
      have "cap_of a (length matching) = off + tl"
        using full(2) le eq by (simp add: cap_of_def N_def min_def)
      with full it' rw I2 l2 show ?thesis
        by (intro disjI1 exI [of _ w2]) auto
    next
      case more
      from more(1) len have le: "tl \<le> int N - off" by (simp add: min_def split: if_splits)
      from more it' have "page_iter get std a s u (off, idx, off, w) =
          Inl (off + tl, idx + 1, off + tl, w2)" by simp
      moreover have "off < off + tl" using tl1 by simp
      moreover have "off + tl \<le> int (length matching)" using le by (simp add: N_def)
      moreover have "truthy_int (limit a) \<longrightarrow> off + tl < the (limit a)" using more(2) by auto
      moreover have "rows_written w2 = rows_written w + (if dry_run a then 0 else nat (off + tl - off))"
        using rw more(1) by auto
      ultimately show ?thesis using I2 l2 by blast
    qed
  qed
qed

lemma page_loop_served:
  assumes M: "1 \<le> max_retries a" and p: "1 \<le> page_size a"
    and served: "\<And>c q. fst (get c q) = fst (consistent_api matching () q)"
    and inv: "\<And>c q. I c \<Longrightarrow> I (snd (get c q))"
  shows "I (client w) \<Longrightarrow> 0 \<le> off \<Longrightarrow> off \<le> int (length matching) \<Longrightarrow>
     (truthy_int (limit a) \<longrightarrow> off < the (limit a)) \<Longrightarrow>
     \<exists>w'. page_loop get std a s u (off, idx, off, w) =
              Some (Inr (cap_of a (length matching)), w')
         \<and> I (client w') \<and> set (log w) \<subseteq> set (log w')
         \<and> rows_written w' =
              rows_written w + (if dry_run a then 0 else nat (cap_of a (length matching) - off))"
proof (induction "nat (int (length matching) - off)" arbitrary: off idx w rule: less_induct)
  case less
  have "(\<exists>w'. page_iter get std a s u (off, idx, off, w) =
              Inr (Inr (cap_of a (length matching)), w')
            \<and> I (client w') \<and> set (log w) \<subseteq> set (log w')
            \<and> rows_written w' =
                rows_written w + (if dry_run a then 0 else nat (cap_of a (length matching) - off)))
       \<or> (\<exists>off' w'. page_iter get std a s u (off, idx, off, w) =
              Inl (off', idx + 1, off', w')
            \<and> I (client w') \<and> set (log w) \<subseteq> set (log w')
            \<and> off < off' \<and> off' \<le> int (length matching)
            \<and> (truthy_int (limit a) \<longrightarrow> off' < the (limit a))
            \<and> rows_written w' = rows_written w + (if dry_run a then 0 else nat (off' - off)))"
    by (rule page_iter_served [OF M p served inv less.prems]) 
  then show ?case
  proof (elim disjE exE conjE)
    fix w'
    assume "page_iter get std a s u (off, idx, off, w) =
              Inr (Inr (cap_of a (length matching)), w')"
      and "I (client w')" and "set (log w) \<subseteq> set (log w')"
      and "rows_written w' =
        rows_written w + (if dry_run a then 0 else nat (cap_of a (length matching) - off))"
    then show ?thesis
      by (subst page_loop_unfold) simp
  next
    fix off' w'
    assume it: "page_iter get std a s u (off, idx, off, w) =
              Inl (off', idx + 1, off', w')"
      and I': "I (client w')" and lg: "set (log w) \<subseteq> set (log w')"
      and lt: "off < off'" and le: "off' \<le> int (length matching)"
      and lim: "truthy_int (limit a) \<longrightarrow> off' < the (limit a)"
      and rw: "rows_written w' = rows_written w + (if dry_run a then 0 else nat (off' - off))"
    have m: "nat (int (length matching) - off') < nat (int (length matching) - off)"
      using lt le by simp
    have o: "0 \<le> off'" using lt less.prems(2) by simp
    from less.hyps [OF m I' o le lim, of "idx + 1"]
    obtain w'' where
      l: "page_loop get std a s u (off', idx + 1, off', w') =
              Some (Inr (cap_of a (length matching)), w'')"
      and I'': "I (client w'')" and lg': "set (log w') \<subseteq> set (log w'')"
      and r: "rows_written w'' =
              rows_written w' + (if dry_run a then 0 else nat (cap_of a (length matching) - off'))"
      by blast
    have c: "off' \<le> cap_of a (length matching)" using le lim by (auto simp: cap_of_def)
    have "page_loop get std a s u (off, idx, off, w) =
            Some (Inr (cap_of a (length matching)), w'')"
      by (subst page_loop_unfold) (simp add: it l)
    moreover have "rows_written w'' =
        rows_written w + (if dry_run a then 0 else nat (cap_of a (length matching) - off))"
      using r rw c lt less.prems(2) by auto
    ultimately show ?thesis using I'' lg lg' by blast
  qed
qed

lemma count_total_served:
  assumes "1 \<le> max_retries a" and "\<And>c q. fst (get c q) = fst (consistent_api matching () q)"
  shows "count_total get a s u w =
    (if truthy_int (limit a) then (Inr (the (limit a)), w)
     else (Inr (int (length matching)),
           w\<lparr>client := snd (get (client w) (CountQuery s u)),
             log := log w @ [InfoCounting]\<rparr>))"
  by (simp add: count_total_def get_with_retry_served [OF assms])

lemma pages_of_ok: "1 \<le> p \<Longrightarrow> \<exists>n. pages_of t p = Inr n"
  by (simp add: pages_of_def)

text \<open>
  The run against any client that serves the matching rows. \<open>I\<close> is any property of the
  client state that its calls preserve; it holds at the end if it holds after the count
  query, when one is sent, or at the start, when none is.
\<close>

lemma main_ingest_served:
  assumes dates: "since_date_of strptime a env = Inr s" "until_date_of strptime a env = Inr u"
      "s \<le> u"
    and p: "1 \<le> page_size a" and M: "1 \<le> max_retries a"
    and lim: "\<forall>m. limit a = Some m \<longrightarrow> 0 \<le> m"
    and served: "\<And>c q. fst (get c q) = fst (consistent_api matching () q)"
    and inv: "\<And>c q. I c \<Longrightarrow> I (snd (get c q))"
    and I: "if truthy_int (limit a) then I (client w)
            else I (snd (get (client w) (CountQuery s u)))"
  shows "\<exists>w'. main_ingest get std strptime env a w = Some (Inr (), w')
      \<and> I (client w')
      \<and> (\<not> truthy_int (limit a) \<longrightarrow> InfoCounting \<in> set (log w'))
      \<and> last (log w') = InfoDone (cap_of a (length matching))
      \<and> rows_written w' =
          rows_written w + (if dry_run a then 0 else nat (cap_of a (length matching)))"
proof -
  define w1 where "w1 = (if truthy_str (app_token_var env) \<or> truthy_str (socrata_token_var env)
      then w else w\<lparr>log := log w @ [WarnNoToken]\<rparr>)"
  define w2 where "w2 = w1\<lparr>log := log w1 @ [InfoWhere s u]\<rparr>"
  have c2: "client w2 = client w" and f2: "files w2 = files w"
    by (simp_all add: w2_def w1_def)
  obtain t w3 where ct: "count_total get a s u w2 = (Inr t, w3)"
    and f3: "files w3 = files w" and I3: "I (client w3)"
    and l3: "\<not> truthy_int (limit a) \<longrightarrow> InfoCounting \<in> set (log w3)"
    using I by (cases "truthy_int (limit a)")
       (auto simp: count_total_served [OF M served] c2 f2)
  obtain n where pg: "pages_of t (page_size a) = Inr n"
    using pages_of_ok [OF p] by blast
  define w4 where "w4 = w3\<lparr>log := log w3 @ [InfoFetching t n]\<rparr>"
  have I4: "I (client w4)" using I3 by (simp add: w4_def)
  have lim0: "truthy_int (limit a) \<longrightarrow> 0 < the (limit a)"
    using lim by (cases "limit a") auto
  have "\<exists>w5. page_loop get std a s u (0, 0, 0, w4) =
           Some (Inr (cap_of a (length matching)), w5)
         \<and> I (client w5) \<and> set (log w4) \<subseteq> set (log w5)
         \<and> rows_written w5 =
           rows_written w4 + (if dry_run a then 0 else nat (cap_of a (length matching) - 0))"
    by (rule page_loop_served [OF M p served inv I4]) (use lim0 in simp_all)
  then obtain w5 where
    pl: "page_loop get std a s u (0, 0, 0, w4) = Some (Inr (cap_of a (length matching)), w5)"
    and I5: "I (client w5)" and l5: "set (log w4) \<subseteq> set (log w5)"
    and rw: "rows_written w5 =
           rows_written w4 + (if dry_run a then 0 else nat (cap_of a (length matching)))"
    by auto
  have m: "main_ingest get std strptime env a w =
      Some (Inr (), w5\<lparr>log := log w5 @ [InfoDone (cap_of a (length matching))]\<rparr>)"
    unfolding main_ingest_def
    using dates ct pg pl
    by (simp add: w1_def [symmetric] w2_def [symmetric] w4_def [symmetric] Let_def)
  have "rows_written w4 = rows_written w"
    by (simp add: rows_written_def w4_def f3)
  with rw have r: "rows_written (w5\<lparr>log := log w5 @ [InfoDone (cap_of a (length matching))]\<rparr>) =
      rows_written w + (if dry_run a then 0 else nat (cap_of a (length matching)))"
    by (simp add: rows_written_def)
  have "I (client (w5\<lparr>log := log w5 @ [InfoDone (cap_of a (length matching))]\<rparr>))"
    using I5 by simp
  moreover have "\<not> truthy_int (limit a) \<longrightarrow>
      InfoCounting \<in> set (log (w5\<lparr>log := log w5 @ [InfoDone (cap_of a (length matching))]\<rparr>))"
    using l3 l5 by (auto simp: w4_def)
  ultimately show ?thesis
    using m r by (intro exI [of _ "w5\<lparr>log := log w5 @ [InfoDone (cap_of a (length matching))]\<rparr>"]) simp
qed

lemma cap_of_expected:
  assumes "\<forall>m. limit a = Some m \<longrightarrow> 1 \<le> m"
  shows "cap_of a n = int (expected_rows (limit a) n)"
  using assms by (cases "limit a") (auto simp: cap_of_def expected_rows_def min_def)

text \<open>
  Claim C7, with the conditions it needs. For a date range that resolves with
  \<open>since \<le> until\<close>, a page size of at least 1, at least one permitted attempt for each
  request and a row cap, where one is given, of at least 1, a run against an API that
  serves consistent pages of a fixed list of matching rows terminates without an exception;
  the total it reports is \<^verbatim>\<open>min(total, max_rows)\<close>, or the number of matching rows when no
  cap is given; and the files it has written hold exactly that many rows, unless it is a dry
  run, which writes none.
\<close>

theorem ingest_terminates_with_expected_rows:
  assumes dates: "since_date_of strptime a env = Inr s" "until_date_of strptime a env = Inr u"
      "s \<le> u"
    and p: "1 \<le> page_size a" and M: "1 \<le> max_retries a"
    and lim: "\<forall>m. limit a = Some m \<longrightarrow> 1 \<le> m"
  shows "\<exists>w'. main_ingest (consistent_api matching) std strptime env a w = Some (Inr (), w')
      \<and> last (log w') = InfoDone (int (expected_rows (limit a) (length matching)))
      \<and> rows_written w' =
          rows_written w + (if dry_run a then 0 else expected_rows (limit a) (length matching))"
proof -
  have lim0: "\<forall>m. limit a = Some m \<longrightarrow> 0 \<le> m" using lim by auto
  have "\<exists>w'. main_ingest (consistent_api matching) std strptime env a w = Some (Inr (), w')
      \<and> True
      \<and> (\<not> truthy_int (limit a) \<longrightarrow> InfoCounting \<in> set (log w'))
      \<and> last (log w') = InfoDone (cap_of a (length matching))
      \<and> rows_written w' =
          rows_written w + (if dry_run a then 0 else nat (cap_of a (length matching)))"
    by (rule main_ingest_served [where I = "\<lambda>c. True", OF dates p M lim0])
       (simp_all add: consistent_api_def split: query.splits)
  then show ?thesis
    by (auto simp: cap_of_expected [OF lim])
qed

text \<open>
  Seven matching rows, \<^verbatim>\<open>--limit 5 --page-size 3\<close>: the run ends having written five rows.
\<close>

theorem ingest_terminates_with_expected_rows_witness:
  "\<exists>w'. main_ingest (consistent_api [10, 11, 12, 13, 14, 15, 16]) row_of no_strptime
            test_environ test_args unit_world = Some (Inr (), w')
      \<and> last (log w') = InfoDone 5 \<and> rows_written w' = 5"
  using ingest_terminates_with_expected_rows
    [of no_strptime test_args test_environ 18264 20089 "[10, 11, 12, 13, 14, 15, 16]" row_of
      unit_world]
  by (simp add: since_date_of_def until_date_of_def test_args_def test_environ_def
      expected_rows_def rows_written_def unit_world_def eval_nat_numeral)

text \<open>
  Without those conditions the count is another one. Against seven matching rows, with the
  arguments of the integration test but for one: \<^verbatim>\<open>--max-retries 0\<close> sends no request and
  ends normally with no row written, where \<^verbatim>\<open>min(7, 5)\<close> is 5; \<^verbatim>\<open>--limit 0\<close> writes all
  seven rows, where \<^verbatim>\<open>min(7, 0)\<close> is 0; \<^verbatim>\<open>--page-size 0\<close> raises \<^verbatim>\<open>ZeroDivisionError\<close>
  in the page plan; \<^verbatim>\<open>--limit -1\<close> leaves the loop at once; and \<^verbatim>\<open>--dry-run\<close> fetches five
  rows and writes no page.
\<close>

theorem ingest_expected_rows_counterexample:
  "main_ingest (consistent_api [10, 11, 12, 13, 14, 15, 16]) row_of no_strptime test_environ
     (test_args\<lparr>max_retries := 0\<rparr>) unit_world =
   Some (Inr (),
     \<lparr>client = (), log = [InfoWhere 18264 20089, InfoFetching 5 2, InfoDone 0], slept = [],
      files = []\<rparr>)
   \<and> main_ingest (consistent_api [10, 11, 12, 13, 14, 15, 16]) row_of no_strptime test_environ
     (test_args\<lparr>limit := Some 0\<rparr>) unit_world =
   Some (Inr (),
     \<lparr>client = (),
      log = [InfoWhere 18264 20089, InfoCounting, InfoFetching 7 3, InfoWrote 3 (18264, 1),
             InfoWrote 3 (18264, 2), InfoWrote 1 (18264, 3), InfoDone 7],
      slept = [],
      files = [((18264, 1), [10, 11, 12]), ((18264, 2), [13, 14, 15]), ((18264, 3), [16])]\<rparr>)
   \<and> main_ingest (consistent_api [10, 11, 12, 13, 14, 15, 16]) row_of no_strptime test_environ
     (test_args\<lparr>page_size := 0\<rparr>) unit_world =
   Some (Inl ZeroDivisionError,
     \<lparr>client = (), log = [InfoWhere 18264 20089], slept = [], files = []\<rparr>)
   \<and> main_ingest (consistent_api [10, 11, 12, 13, 14, 15, 16]) row_of no_strptime test_environ
     (test_args\<lparr>limit := Some (- 1)\<rparr>) unit_world =
   Some (Inr (),
     \<lparr>client = (), log = [InfoWhere 18264 20089, InfoFetching (- 1) 0, InfoDone 0], slept = [],
      files = []\<rparr>)
   \<and> main_ingest (consistent_api [10, 11, 12, 13, 14, 15, 16]) row_of no_strptime test_environ
     (test_args\<lparr>dry_run := True\<rparr>) unit_world =
   Some (Inr (),
     \<lparr>client = (),
      log = [InfoWhere 18264 20089, InfoFetching 5 2, InfoDryRun 3 (18264, 1),
             InfoDryRun 2 (18264, 2), InfoDone 5],
      slept = [], files = []\<rparr>)"
  by code_simp




text \<open>
  The queries of that run in full, and those of the run with \<^verbatim>\<open>--limit 5\<close>, which sends no
  count query and caps its second page at two rows.
\<close>

lemma limit_zero_example:
  "main_ingest (recording_api [10, 11, 12, 13, 14, 15, 16]) row_of no_strptime test_environ
     (test_args\<lparr>limit := Some 0\<rparr>) recording_world =
   Some (Inr (),
     \<lparr>client = [CountQuery 18264 20089, PageQuery 18264 20089 3 0, PageQuery 18264 20089 3 3,
                PageQuery 18264 20089 3 6],
      log = [InfoWhere 18264 20089, InfoCounting, InfoFetching 7 3, InfoWrote 3 (18264, 1),
             InfoWrote 3 (18264, 2), InfoWrote 1 (18264, 3), InfoDone 7],
      slept = [],
      files = [((18264, 1), [10, 11, 12]), ((18264, 2), [13, 14, 15]), ((18264, 3), [16])]\<rparr>)"
  by code_simp

lemma limit_five_example:
  "main_ingest (recording_api [10, 11, 12, 13, 14, 15, 16]) row_of no_strptime test_environ
     test_args recording_world =
   Some (Inr (),
     \<lparr>client = [PageQuery 18264 20089 3 0, PageQuery 18264 20089 2 3],
      log = [InfoWhere 18264 20089, InfoFetching 5 2, InfoWrote 3 (18264, 1),
             InfoWrote 2 (18264, 2), InfoDone 5],
      slept = [],
      files = [((18264, 1), [10, 11, 12]), ((18264, 2), [13, 14])]\<rparr>)"
  by code_simp

text \<open>
  The model reproduces the repository's integration test: two files, of three and of two
  rows.
\<close>

lemma integration_test_example:
  "main_ingest (dummy_client 2) row_of no_strptime test_environ test_args dummy_world =
   Some (Inr (),
     \<lparr>client = 2,
      log = [InfoWhere 18264 20089, InfoFetching 5 2, InfoWrote 3 (18264, 1),
             InfoWrote 2 (18264, 2), InfoDone 5],
      slept = [],
      files = [((18264, 1), [0, 1, 2]), ((18264, 2), [0, 1])]\<rparr>)"
  by code_simp

section \<open>Properties of the transform\<close>

subsection \<open>The shape of the result\<close>

lemma zip_map_same: "zip xs (map f xs) = map (\<lambda>x. (x, f x)) xs"
  by (induction xs) auto

lemma engineer_unfold:
  "engineer m df =
    (if ''created_date'' \<notin> set (raw_columns df) then Inl (KeyError ''created_date'')
     else if ''closed_date'' \<notin> set (raw_columns df) then Inl (KeyError ''closed_date'')
     else if ''resolution_action_updated_date'' \<notin> set (raw_columns df)
       then Inl (KeyError ''resolution_action_updated_date'')
     else Inr \<lparr>columns = filter (\<lambda>c. c \<in> set (raw_columns df @ derived_columns)) keep,
               rows = map (\<lambda>(r, t). engineer_row (SLA_HOURS m) america_new_york
                              (holiday_calendar m (local_years america_new_york df)) (raw_columns df) r t t)
                        (with_created (raw_rows df))\<rparr>)"
  by (simp add: engineer_def Let_def tz_convert_def tz_localize_utc_def zip_map_same
      local_years_def split_def o_def)

lemma engineer_rows:
  assumes "engineer m df = Inr c"
  shows "rows c = map (\<lambda>(r, t). engineer_row (SLA_HOURS m) america_new_york
                          (holiday_calendar m (local_years america_new_york df)) (raw_columns df) r t t)
                   (with_created (raw_rows df))"
  using assms by (auto simp: engineer_unfold split: if_splits)

text \<open>Every row kept has the creation time it is paired with.\<close>

lemma with_created_set: "(r, t) \<in> set (with_created rs) \<Longrightarrow> r \<in> set rs \<and> created_date r = Some t"
  by (induction rs) (auto split: option.splits)

lemma engineer_row_fields:
  "response_hours (engineer_row sla tz hol cols r t l) =
     hours_between (fillna (closed_date r) (resolution_action_updated_date r)) t"
  "within_sla (engineer_row sla tz hol cols r t l) =
     le_sla (hours_between (fillna (closed_date r) (resolution_action_updated_date r)) t) sla"
  "clean_row.unique_key (engineer_row sla tz hol cols r t l) = raw_row.unique_key r"
  "created_dt (engineer_row sla tz hol cols r t l) = l"
  "date (engineer_row sla tz hol cols r t l) = date_of (wall_clock tz l)"
  "hour (engineer_row sla tz hol cols r t l) = hour_of (wall_clock tz l)"
  "day_of_week (engineer_row sla tz hol cols r t l) = day_of_week_of (wall_clock tz l)"
  "dow_name (engineer_row sla tz hol cols r t l) =
     day_names ! nat (day_of_week_of (wall_clock tz l))"
  "month (engineer_row sla tz hol cols r t l) = fst (snd (date_of (wall_clock tz l)))"
  "is_holiday (engineer_row sla tz hol cols r t l) = hol (date_of (wall_clock tz l))"
  by (simp_all add: engineer_row_def Let_def)

lemma fillna_None_iff: "fillna c u = None \<longleftrightarrow> c = None \<and> u = None"
  by (cases c) simp_all

lemma hours_between_fillna:
  "hours_between (fillna c u) t =
    (case c of Some e \<Rightarrow> Some (real_of_int (e - t) / 1000000000 / 3600)
     | None \<Rightarrow> (case u of Some e \<Rightarrow> Some (real_of_int (e - t) / 1000000000 / 3600)
                | None \<Rightarrow> None))"
  by (cases c; cases u) (simp_all add: hours_between_def)

subsection \<open>The example tickets\<close>

lemma import_module_fields:
  "SLA_HOURS (import_module lib sla) = sla"
  "HOLIDAYS_AVAILABLE (import_module lib sla) = (lib \<noteq> None)"
  "US (import_module lib sla) = lib"
  by (cases lib; simp add: import_module_def)+

lemma holiday_calendar_unavailable: "holiday_calendar (import_module None sla) ys = (\<lambda>d. False)"
  by (simp add: holiday_calendar_def import_module_fields)

lemma kept_columns:
  "filter (\<lambda>c. c \<in> set select_cols \<or> c \<in> set derived_columns) keep = keep"
  by code_simp

lemma select_cols_timestamps:
  "''created_date'' \<in> set select_cols" "''closed_date'' \<in> set select_cols"
  "''resolution_action_updated_date'' \<in> set select_cols"
  "''borough'' \<in> set select_cols" "''complaint_type'' \<in> set select_cols"
  "''descriptor'' \<in> set select_cols" "''agency'' \<in> set select_cols"
  "''status'' \<in> set select_cols" "''open_data_channel_type'' \<in> set select_cols"
  "''incident_zip'' \<in> set select_cols" "''city'' \<in> set select_cols"
  by (simp_all add: select_cols_def)

lemma engineer_frame_of:
  "engineer m (frame_of rs) =
     Inr \<lparr>columns = keep,
          rows = map (\<lambda>(r, t). engineer_row (SLA_HOURS m) america_new_york
                        (holiday_calendar m (local_years america_new_york (frame_of rs))) select_cols r t t)
                   (with_created rs)\<rparr>"
  by (simp add: engineer_unfold frame_of_def select_cols_timestamps kept_columns local_years_def)

lemma wall_2024_01_01: "wall_clock america_new_york 1704067200000000000 = 1704049200000000000"
  by code_simp

lemma fields_2024_01_01:
  "date_of 1704049200000000000 = (2023, 12, 31)"
  "hour_of 1704049200000000000 = 19"
  "minute_of 1704049200000000000 = 0"
  "second_of 1704049200000000000 = 0"
  "day_of_week_of 1704049200000000000 = 6"
  "day_names ! 6 = ''Sunday''"
  "month_names ! 11 = ''December''"
  by code_simp+

lemma wall_2024_06_01: "wall_clock america_new_york 1717236000000000000 = 1717221600000000000"
  by code_simp

lemma fields_2024_06_01:
  "date_of 1717221600000000000 = (2024, 6, 1)"
  "hour_of 1717221600000000000 = 6"
  "day_of_week_of 1717221600000000000 = 5"
  "day_names ! 5 = ''Saturday''"
  "month_names ! 5 = ''June''"
  by code_simp+

lemma strip_title_examples:
  "strip '' BRONX '' = ''BRONX''" "strip (title ''BRONX'') = ''Bronx''"
  "strip ''Noise'' = ''Noise''"
  by code_simp+

lemma open_row_clean:
  "engineer_row 24 america_new_york (\<lambda>d. False) select_cols open_row 1704067200000000000
      1704067200000000000 = open_clean"
  by (simp add: engineer_row_def Let_def wall_2024_01_01 fields_2024_01_01 open_row_def
      blank_row_def hours_between_def le_sla_def str_strip_def city_clean_def
      select_cols_timestamps open_clean_def)

lemma closed_row_clean:
  "engineer_row 24 america_new_york (\<lambda>d. False) select_cols closed_row 1717236000000000000
      1717236000000000000 = closed_clean"
  by (simp add: engineer_row_def Let_def wall_2024_06_01 fields_2024_06_01 closed_row_def
      blank_row_def hours_between_def le_sla_def str_strip_def city_clean_def
      select_cols_timestamps closed_clean_def strip_title_examples)

lemma early_row_clean:
  "engineer_row 24 america_new_york (\<lambda>d. False) select_cols early_row 1717236000000000000
      1717236000000000000 = early_clean"
  by (simp add: engineer_row_def Let_def wall_2024_06_01 fields_2024_06_01 early_row_def
      blank_row_def hours_between_def le_sla_def str_strip_def city_clean_def
      select_cols_timestamps early_clean_def)

lemma example_created:
  "created_date open_row = Some 1704067200000000000"
  "created_date closed_row = Some 1717236000000000000"
  "created_date early_row = Some 1717236000000000000"
  by (simp_all add: open_row_def closed_row_def early_row_def blank_row_def)

lemmas example_eval = engineer_frame_of example_created import_module_fields
  holiday_calendar_unavailable open_row_clean closed_row_clean early_row_clean

subsection \<open>The SLA flag\<close>

text \<open>
  Claim C1, as the code has it. In every clean row, \<open>within_sla\<close> is true exactly when
  \<open>response_hours\<close> is present and at most \<open>SLA_HOURS\<close>; where \<open>response_hours\<close> is
  missing, \<open>within_sla\<close> is \<open>False\<close> (the column is boolean and has no missing value).
\<close>

theorem within_sla_iff_response_within:
  assumes "engineer m df = Inr c" and "r \<in> set (rows c)"
  shows "(within_sla r \<longleftrightarrow> (\<exists>h. response_hours r = Some h \<and> h \<le> SLA_HOURS m))
       \<and> (response_hours r = None \<longrightarrow> within_sla r = False)"
proof -
  from engineer_rows [OF assms(1)] assms(2)
  obtain r0 t where "r = engineer_row (SLA_HOURS m) america_new_york
      (holiday_calendar m (local_years america_new_york df)) (raw_columns df) r0 t t"
    by auto
  then show ?thesis
    by (auto simp: engineer_row_fields le_sla_def split: option.splits)
qed

text \<open>
  The ticket closed after four hours is within a 24-hour SLA; the ticket never closed has
  no response time and the flag \<open>False\<close>.
\<close>

theorem within_sla_iff_response_within_witness:
  "engineer (import_module None 24) (frame_of [closed_row, open_row]) =
     Inr \<lparr>columns = keep, rows = [closed_clean, open_clean]\<rparr>
   \<and> within_sla closed_clean \<and> response_hours closed_clean = Some 4
   \<and> \<not> within_sla open_clean \<and> response_hours open_clean = None"
proof -
  have e: "engineer (import_module None 24) (frame_of [closed_row, open_row]) =
     Inr \<lparr>columns = keep, rows = [closed_clean, open_clean]\<rparr>"
    by (simp add: example_eval)
  have m1: "closed_clean \<in> set (rows \<lparr>columns = keep, rows = [closed_clean, open_clean]\<rparr>)"
    and m2: "open_clean \<in> set (rows \<lparr>columns = keep, rows = [closed_clean, open_clean]\<rparr>)"
    by simp_all
  show ?thesis
    using e within_sla_iff_response_within [OF e m1] within_sla_iff_response_within [OF e m2]
    by (simp add: closed_clean_def open_clean_def)
qed

text \<open>
  The ticket that was never closed or updated: its \<open>response_hours\<close> is missing and its
  \<open>within_sla\<close> is \<open>False\<close>, not missing.
\<close>

theorem within_sla_null_counterexample:
  "engineer (import_module None 24) (frame_of [open_row]) =
     Inr \<lparr>columns = keep, rows = [open_clean]\<rparr>
   \<and> response_hours open_clean = None \<and> within_sla open_clean = False"
  by (simp add: example_eval) (simp add: open_clean_def)

subsection \<open>The response time\<close>

text \<open>
  Claim C4. Each clean row comes from a raw row with a creation time \<open>t\<close>, in order. Its
  \<open>response_hours\<close> is missing exactly when the closure and the last-update times are
  both missing; otherwise it is the time from \<open>t\<close> to the closure time when there is one,
  else to the last-update time, in hours, whatever its sign.
\<close>

theorem response_hours_from_timestamps:
  assumes "engineer m df = Inr c"
  shows "list_all2 (\<lambda>(r, t) r'.
            (response_hours r' = None \<longleftrightarrow>
               closed_date r = None \<and> resolution_action_updated_date r = None)
          \<and> (\<forall>e. closed_date r = Some e \<longrightarrow>
                 response_hours r' = Some (real_of_int (e - t) / 1000000000 / 3600))
          \<and> (\<forall>e. closed_date r = None \<and> resolution_action_updated_date r = Some e \<longrightarrow>
                 response_hours r' = Some (real_of_int (e - t) / 1000000000 / 3600)))
         (with_created (raw_rows df)) (rows c)"
  unfolding engineer_rows [OF assms] list_all2_map2
  by (rule list_all2_same [THEN iffD2])
     (auto simp: engineer_row_fields hours_between_def fillna_None_iff split: option.splits)

text \<open>
  Four hours for the closed ticket, missing for the open one, and minus one hour, unclamped,
  for the ticket closed an hour before its creation.
\<close>

theorem response_hours_from_timestamps_witness:
  "engineer (import_module None 24)
       (frame_of [closed_row, open_row, early_row]) =
     Inr \<lparr>columns = keep, rows = [closed_clean, open_clean, early_clean]\<rparr>
   \<and> response_hours closed_clean = Some 4
   \<and> response_hours open_clean = None
   \<and> response_hours early_clean = Some (- 1)"
proof -
  have e: "engineer (import_module None 24)
       (frame_of [closed_row, open_row, early_row]) =
     Inr \<lparr>columns = keep, rows = [closed_clean, open_clean, early_clean]\<rparr>"
    by (simp add: example_eval)
  show ?thesis
    using e response_hours_from_timestamps [OF e]
    by (simp add: closed_clean_def open_clean_def early_clean_def)
qed

subsection \<open>The local calendar fields\<close>

text \<open>
  The bounds of the years 2007 to 2037, over which \<open>america_new_york\<close> is the zone of the
  tz database, and its offsets on either side of the first and the last change of clock of
  those years and of those of 2024.
\<close>

lemma modelled_years:
  "days_from_civil 2007 1 1 * 86400 = 1167609600"
  "days_from_civil 2038 1 1 * 86400 = 2145916800"
  by code_simp+

lemma new_york_changes:
  "america_new_york 1173596399 = - 18000" "america_new_york 1173596400 = - 14400"
  "america_new_york 1194155999 = - 14400" "america_new_york 1194156000 = - 18000"
  "america_new_york 1710053999 = - 18000" "america_new_york 1710054000 = - 14400"
  "america_new_york 1730613599 = - 14400" "america_new_york 1730613600 = - 18000"
  "america_new_york 2120108399 = - 18000" "america_new_york 2120108400 = - 14400"
  "america_new_york 2140667999 = - 14400" "america_new_york 2140668000 = - 18000"
  by code_simp+

text \<open>
  Claim C5. Whether the creation column is naive or aware, \<open>created_dt\<close> is the stored
  value taken as an instant in UTC; for an instant of the years 2007 to 2037 the date, the
  hour and the day of the week are its wall-clock reading in New York. In particular the
  creation time 2024-01-01 00:00:00 reads 2023-12-31 19:00:00 there: hour 19, a Sunday.
\<close>

theorem created_dt_read_in_new_york:
  assumes "engineer m df = Inr c"
  shows "list_all2 (\<lambda>(r, t) r'.
            created_dt r' = t
          \<and> (1167609600000000000 \<le> t \<and> t < 2145916800000000000 \<longrightarrow>
                date r' = date_of (wall_clock america_new_york t)
              \<and> hour r' = hour_of (wall_clock america_new_york t)
              \<and> day_of_week r' = day_of_week_of (wall_clock america_new_york t)
              \<and> dow_name r' = day_names ! nat (day_of_week_of (wall_clock america_new_york t)))
          \<and> (t = 1704067200000000000 \<longrightarrow>
                date r' = (2023, 12, 31) \<and> hour r' = 19
              \<and> minute_of (wall_clock america_new_york t) = 0
              \<and> second_of (wall_clock america_new_york t) = 0
              \<and> day_of_week r' = 6 \<and> dow_name r' = ''Sunday''))
         (with_created (raw_rows df)) (rows c)"
  unfolding engineer_rows [OF assms] list_all2_map2
  by (rule list_all2_same [THEN iffD2])
     (auto simp: engineer_row_fields wall_2024_01_01 fields_2024_01_01)

text \<open>The ticket created at 2024-01-01 00:00:00, in a naive frame.\<close>

theorem created_dt_read_in_new_york_witness:
  "engineer (import_module None 24) (frame_of [open_row]) =
     Inr \<lparr>columns = keep, rows = [open_clean]\<rparr>
   \<and> created_dt open_clean = 1704067200000000000
   \<and> date open_clean = (2023, 12, 31) \<and> hour open_clean = 19
   \<and> dow_name open_clean = ''Sunday''"
proof -
  have e: "engineer (import_module None 24) (frame_of [open_row]) =
     Inr \<lparr>columns = keep, rows = [open_clean]\<rparr>"
    by (simp add: example_eval)
  show ?thesis
    using e created_dt_read_in_new_york [OF e]
    by (simp add: open_clean_def)
qed

section \<open>Properties of validation and publication\<close>

lemma missing_empty_iff:
  "filter (\<lambda>c. c \<notin> set cols) xs = [] \<longleftrightarrow> set xs \<subseteq> set cols"
  by (auto simp: filter_empty_conv)

lemma dropna_all_iff:
  "list_all P (dropna (map f rs)) \<longleftrightarrow> (\<forall>r \<in> set rs. \<forall>h. f r = Some h \<longrightarrow> P h)"
proof (induction rs)
  case Nil
  then show ?case by simp
next
  case (Cons r rs)
  then show ?case by (cases "f r") auto
qed

lemma main_process_failure_keeps_store:
  "fst (main_process m pa st) = Inl e \<Longrightarrow> snd (main_process m pa st) = st"
  by (auto simp: main_process_def Let_def split: sum.splits if_splits)

lemma main_process_checked:
  assumes "load_raw st = Inr df" and "engineer m df = Inr clean"
  shows "main_process m pa st =
    (if \<not> set expected \<subseteq> set (columns clean) then (Inl (AssertionError ''Missing columns''), st)
     else if \<not> distinct (map clean_row.unique_key (rows clean))
       then (Inl (AssertionError ''unique_key has duplicates''), st)
     else if \<not> (\<forall>r \<in> set (rows clean). \<forall>h. response_hours r = Some h \<longrightarrow> 0 \<le> h)
       then (Inl (AssertionError ''negative response_hours found''), st)
     else if pa
       then (Inr (), st\<lparr>clean_parquet := Some clean,
                         processed_part := write_dataset clean (processed_part st),
                         printed := printed st @ [SavedClean (length (rows clean)),
                                                  WrotePartitioned]\<rparr>)
     else (Inr (), st\<lparr>clean_parquet := Some clean,
                       printed := printed st @ [SavedClean (length (rows clean)),
                                                SkippingPartitioned]\<rparr>))"
  using assms
  by (auto simp add: main_process_def Let_def missing_empty_iff dropna_all_iff)

lemma load_raw_store_of: "load_raw (store_of rs) = Inr (frame_of rs)"
proof -
  have "remdups select_cols = select_cols" by code_simp
  then show ?thesis by (simp add: load_raw_def store_of_def frame_of_def)
qed

lemma expected_kept: "set expected \<subseteq> set keep"
  by (simp add: expected_def keep_def)

lemma example_keys:
  "clean_row.unique_key closed_clean = Some ''k1''" "clean_row.unique_key open_clean = Some ''k2''"
  "clean_row.unique_key early_clean = Some ''k3''"
  "response_hours closed_clean = Some 4" "response_hours open_clean = None"
  "response_hours early_clean = Some (- 1)"
  by (simp_all add: closed_clean_def open_clean_def early_clean_def)

text \<open>
  Claim C8. A run that ends in an exception leaves the store as it found it: nothing is
  written to the clean file or to the partitions. When the raw files load and the
  transform returns a frame, the run publishes it exactly when the required columns are all
  present, \<open>unique_key\<close> has no repeated value and every present \<open>response_hours\<close> is at
  least 0; otherwise it stops on an \<^verbatim>\<open>AssertionError\<close> before the first write.
\<close>

theorem validation_guards_publish:
  "(\<forall>e. fst (main_process m pa st) = Inl e \<longrightarrow> snd (main_process m pa st) = st)
   \<and> (\<forall>df clean. load_raw st = Inr df \<and> engineer m df = Inr clean \<longrightarrow>
        (fst (main_process m pa st) = Inr () \<longleftrightarrow>
           set expected \<subseteq> set (columns clean)
         \<and> distinct (map clean_row.unique_key (rows clean))
         \<and> (\<forall>r \<in> set (rows clean). \<forall>h. response_hours r = Some h \<longrightarrow> 0 \<le> h))
      \<and> (fst (main_process m pa st) = Inr () \<longrightarrow>
           clean_parquet (snd (main_process m pa st)) = Some clean)
      \<and> (fst (main_process m pa st) \<noteq> Inr () \<longrightarrow>
           (\<exists>msg. fst (main_process m pa st) = Inl (AssertionError msg))
         \<and> snd (main_process m pa st) = st))"
proof (intro conjI allI impI)
  fix e assume "fst (main_process m pa st) = Inl e"
  then show "snd (main_process m pa st) = st" by (rule main_process_failure_keeps_store)
next
  fix df clean assume a: "load_raw st = Inr df \<and> engineer m df = Inr clean"
  note mp = main_process_checked [OF conjunct1 [OF a] conjunct2 [OF a], of pa]
  show "fst (main_process m pa st) = Inr () \<longleftrightarrow>
           set expected \<subseteq> set (columns clean)
         \<and> distinct (map clean_row.unique_key (rows clean))
         \<and> (\<forall>r \<in> set (rows clean). \<forall>h. response_hours r = Some h \<longrightarrow> 0 \<le> h)"
    unfolding mp by auto
  {
    assume "fst (main_process m pa st) = Inr ()"
    then show "clean_parquet (snd (main_process m pa st)) = Some clean"
      unfolding mp by (auto split: if_splits)
  }
  {
    assume n: "fst (main_process m pa st) \<noteq> Inr ()"
    then show "\<exists>msg. fst (main_process m pa st) = Inl (AssertionError msg)"
      unfolding mp by (auto split: if_splits)
    from n show "snd (main_process m pa st) = st"
      unfolding mp by (auto split: if_splits)
  }
qed

text \<open>
  With a dataset already published: a valid page replaces it; a page with a repeated key
  and a page with a negative response time both stop the run and leave it in place.
\<close>

theorem validation_guards_publish_witness:
  "fst (main_process (import_module None 24) True
          (store_of [closed_row, open_row])) = Inr ()
   \<and> clean_parquet (snd (main_process (import_module None 24) True
          (store_of [closed_row, open_row]))) =
       Some \<lparr>columns = keep, rows = [closed_clean, open_clean]\<rparr>
   \<and> fst (main_process (import_module None 24) True
          (store_of [closed_row, closed_row])) = Inl (AssertionError ''unique_key has duplicates'')
   \<and> snd (main_process (import_module None 24) True
          (store_of [closed_row, closed_row])) = store_of [closed_row, closed_row]
   \<and> fst (main_process (import_module None 24) True
          (store_of [closed_row, early_row])) =
       Inl (AssertionError ''negative response_hours found'')
   \<and> clean_parquet (snd (main_process (import_module None 24) True
          (store_of [closed_row, early_row]))) = Some old_clean"
proof -
  have e1: "engineer (import_module None 24) (frame_of [closed_row, open_row]) =
     Inr \<lparr>columns = keep, rows = [closed_clean, open_clean]\<rparr>"
    and e2: "engineer (import_module None 24) (frame_of [closed_row, closed_row]) =
     Inr \<lparr>columns = keep, rows = [closed_clean, closed_clean]\<rparr>"
    and e3: "engineer (import_module None 24) (frame_of [closed_row, early_row]) =
     Inr \<lparr>columns = keep, rows = [closed_clean, early_clean]\<rparr>"
    by (simp_all add: example_eval)
  have p: "clean_parquet (store_of rs) = Some old_clean" for rs
    by (simp add: store_of_def)
  show ?thesis
    using validation_guards_publish [of "import_module None 24" True
        "store_of [closed_row, open_row]"]
      validation_guards_publish [of "import_module None 24" True
        "store_of [closed_row, closed_row]"]
      validation_guards_publish [of "import_module None 24" True
        "store_of [closed_row, early_row]"]
    by (simp add: main_process_checked [OF load_raw_store_of e1]
        main_process_checked [OF load_raw_store_of e2]
        main_process_checked [OF load_raw_store_of e3] expected_kept example_keys p)
qed

section \<open>The transform without the holidays package\<close>

lemma engineer_module_indep:
  assumes "SLA_HOURS m = SLA_HOURS m'" and "engineer m df = Inr c"
  shows "\<exists>c'. engineer m' df = Inr c' \<and> columns c' = columns c
     \<and> map clean_row.unique_key (rows c') = map clean_row.unique_key (rows c)
     \<and> map response_hours (rows c') = map response_hours (rows c)"
  using assms
  by (auto simp: engineer_unfold engineer_row_fields split_def split: if_splits)

lemma engineer_error_indep:
  assumes "engineer m df = Inl e"
  shows "engineer m' df = Inl e"
  using assms by (auto simp: engineer_unfold split: if_splits)

lemma main_process_result:
  "fst (main_process m pa st) =
    (case load_raw st of
       Inl e \<Rightarrow> Inl e
     | Inr df \<Rightarrow>
       (case engineer m df of
          Inl e \<Rightarrow> Inl e
        | Inr clean \<Rightarrow>
            if \<not> set expected \<subseteq> set (columns clean) then Inl (AssertionError ''Missing columns'')
            else if \<not> distinct (map clean_row.unique_key (rows clean))
              then Inl (AssertionError ''unique_key has duplicates'')
            else if \<not> list_all (\<lambda>h. 0 \<le> h) (dropna (map response_hours (rows clean)))
              then Inl (AssertionError ''negative response_hours found'')
            else Inr ()))"
  by (auto simp: main_process_def Let_def missing_empty_iff split: sum.splits)

lemma main_process_module_indep:
  assumes "SLA_HOURS m = SLA_HOURS m'"
  shows "fst (main_process m pa st) = fst (main_process m' pa st)"
proof (cases "load_raw st")
  case (Inl e)
  then show ?thesis by (simp add: main_process_result)
next
  case (Inr df)
  show ?thesis
  proof (cases "engineer m df")
    case (Inl e)
    from engineer_error_indep [OF this] Inl Inr show ?thesis
      by (simp add: main_process_result)
  next
    case (Inr c)
    from engineer_module_indep [OF assms this] obtain c' where
      "engineer m' df = Inr c'" "columns c' = columns c"
      "map clean_row.unique_key (rows c') = map clean_row.unique_key (rows c)"
      "map response_hours (rows c') = map response_hours (rows c)" by blast
    with Inr \<open>load_raw st = Inr df\<close> show ?thesis
      by (simp add: main_process_result)
  qed
qed

text \<open>
  Claim C10. When the import of the holidays package fails, one warning is recorded at
  import; \<^verbatim>\<open>engineer\<close> still returns a frame whenever the three timestamp columns are
  there, with one clean row for each raw row that has a creation time and \<open>is_holiday\<close>
  false in all of them; an exception of \<^verbatim>\<open>engineer\<close> is one it raises with the package
  as well; and \<^verbatim>\<open>main\<close> ends the same way, normally or in the same exception, as it does
  with the package.
\<close>

theorem holidays_unavailable_degrades:
  "length (import_warnings (import_module None sla)) = 1
   \<and> \<not> HOLIDAYS_AVAILABLE (import_module None sla)
   \<and> (''created_date'' \<in> set (raw_columns df) \<and> ''closed_date'' \<in> set (raw_columns df)
        \<and> ''resolution_action_updated_date'' \<in> set (raw_columns df) \<longrightarrow>
        (\<exists>c. engineer (import_module None sla) df = Inr c
            \<and> length (rows c) = length (with_created (raw_rows df))
            \<and> (\<forall>r \<in> set (rows c). \<not> is_holiday r)))
   \<and> (\<forall>e. engineer (import_module None sla) df = Inl e \<longrightarrow>
          engineer (import_module (Some cls) sla) df = Inl e)
   \<and> fst (main_process (import_module None sla) pa st) =
       fst (main_process (import_module (Some cls) sla) pa st)"
proof (intro conjI allI impI)
  show "length (import_warnings (import_module None sla)) = 1"
    by (simp add: import_module_def)
  show "\<not> HOLIDAYS_AVAILABLE (import_module None sla)"
    by (simp add: import_module_fields)
  show "fst (main_process (import_module None sla) pa st) =
       fst (main_process (import_module (Some cls) sla) pa st)"
    by (rule main_process_module_indep) (simp add: import_module_fields)
next
  fix e assume "engineer (import_module None sla) df = Inl e"
  then show "engineer (import_module (Some cls) sla) df = Inl e"
    by (rule engineer_error_indep)
next
  assume "''created_date'' \<in> set (raw_columns df) \<and> ''closed_date'' \<in> set (raw_columns df)
        \<and> ''resolution_action_updated_date'' \<in> set (raw_columns df)"
  then show "\<exists>c. engineer (import_module None sla) df = Inr c
            \<and> length (rows c) = length (with_created (raw_rows df))
            \<and> (\<forall>r \<in> set (rows c). \<not> is_holiday r)"
    by (auto simp: engineer_unfold engineer_row_fields holiday_calendar_unavailable)
qed

text \<open>
  The ticket created on New Year's Eve (local time), without the package and with a
  calendar that holds that day.
\<close>

theorem holidays_unavailable_degrades_witness:
  "import_warnings (import_module None 24) =
     [''python-holidays not installed; is_holiday will be all False.'']
   \<and> engineer (import_module None 24) (frame_of [open_row]) =
       Inr \<lparr>columns = keep, rows = [open_clean]\<rparr>
   \<and> \<not> is_holiday open_clean
   \<and> fst (main_process (import_module None 24) True (store_of [open_row])) =
       fst (main_process (import_module (Some new_year) 24) True
              (store_of [open_row]))"
proof -
  have e: "engineer (import_module None 24) (frame_of [open_row]) =
       Inr \<lparr>columns = keep, rows = [open_clean]\<rparr>"
    by (simp add: example_eval)
  show ?thesis
    using e holidays_unavailable_degrades [of 24 "frame_of [open_row]" new_year
        True "store_of [open_row]"]
    by (simp add: import_module_def open_clean_def)
qed

section \<open>Properties of the precomputed summaries\<close>

text \<open>On a row with a response time the two \<^verbatim>\<open>CASE\<close> expressions add up to 1.\<close>

lemma case_when_complement:
  "case_when (sql_le (Some h) sla) + case_when (sql_gt (Some h) sla) = 1"
  by (simp add: case_when_def sql_le_def sql_gt_def)

text \<open>
  At the boundary \<open>response_hours = sla\<close> a row is within and not a breach, in the SQL as in
  the transform's flag.
\<close>

lemma boundary_value:
  "case_when (sql_le (Some sla) sla) = 1" "case_when (sql_gt (Some sla) sla) = 0"
  "le_sla (Some sla) sla"
  by (simp_all add: case_when_def sql_le_def sql_gt_def le_sla_def)

lemma le_sla_sql_le: "le_sla h sla \<longleftrightarrow> sql_le h sla = Some True"
  by (cases h) (simp_all add: le_sla_def sql_le_def)

lemma case_when_null:
  "case_when (sql_le None sla) = 0" "case_when (sql_gt None sla) = 0"
  by (simp_all add: case_when_def sql_le_def sql_gt_def)

lemma sum_list_complement:
  "\<forall>r \<in> set g. response_hours r \<noteq> None \<Longrightarrow>
   sum_list (map (\<lambda>r. case_when (sql_le (response_hours r) sla)) g)
   + sum_list (map (\<lambda>r. case_when (sql_gt (response_hours r) sla)) g) = real (length g)"
proof (induction g)
  case Nil
  then show ?case by simp
next
  case (Cons r g)
  then obtain h where "response_hours r = Some h" by auto
  with Cons case_when_complement [of h sla] show ?case by simp
qed

text \<open>
  Over a group that is not empty and has a response time in every row, the two rates are
  exact complements.
\<close>

lemma rates_complementary_without_nulls:
  assumes "g \<noteq> []" and "\<forall>r \<in> set g. response_hours r \<noteq> None"
  shows "\<exists>p b. sql_avg (map (\<lambda>r. case_when (sql_le (response_hours r) sla)) g) = Some p
             \<and> sql_avg (map (\<lambda>r. case_when (sql_gt (response_hours r) sla)) g) = Some b
             \<and> p + b = 1"
proof -
  have "sum_list (map (\<lambda>r. case_when (sql_le (response_hours r) sla)) g) / real (length g)
      + sum_list (map (\<lambda>r. case_when (sql_gt (response_hours r) sla)) g) / real (length g) = 1"
    using sum_list_complement [OF assms(2), of sla] assms(1)
    by (simp add: add_divide_distrib [symmetric])
  with assms(1) show ?thesis by (simp add: sql_avg_def)
qed

lemma summary_rows:
  "created_dt closed_clean = 1717236000000000000"
  "created_dt pending_clean = 1717236000000000000"
  "created_dt late_clean = 1717236000000000000"
  "clean_row.borough closed_clean = Some ''BRONX''"
  "clean_row.borough pending_clean = Some ''BRONX''"
  "clean_row.borough late_clean = Some ''BRONX''"
  "clean_row.complaint_type closed_clean = Some ''Noise''"
  "clean_row.complaint_type pending_clean = Some ''Noise''"
  "clean_row.complaint_type late_clean = Some ''Noise''"
  "response_hours pending_clean = None"
  "response_hours late_clean = Some 30"
  by (simp_all add: closed_clean_def pending_clean_def late_clean_def)

lemma daily_example:
  "sql_daily america_new_york 24 [closed_clean, pending_clean] =
     [\<lparr>daily_key = noise_key, daily_summary.tickets = 2,
       daily_summary.median_response = Some 4, pct_within = Some (1 / 2)\<rparr>]"
  by (simp add: sql_daily_def group_by_def summary_rows example_keys wall_2024_06_01
      fields_2024_06_01 noise_key_def sql_avg_def sql_median_def case_when_def sql_le_def)

lemma dow_example:
  "sql_dow america_new_york 24 [late_clean, pending_clean] =
     [\<lparr>dow_hour_key = noise_hour_key, dow_hour_summary.tickets = 2,
       dow_hour_summary.breach_rate = Some (1 / 2),
       dow_hour_summary.median_response = Some 30\<rparr>]"
  by (simp add: sql_dow_def group_by_def summary_rows example_keys wall_2024_06_01
      fields_2024_06_01 noise_hour_key_def sql_avg_def sql_median_def case_when_def sql_gt_def)

text \<open>
  Claim C2, at a group of two tickets of which one has no response time. The script keeps
  that row in every denominator: the daily \<open>pct_within\<close> of a ticket answered in four
  hours and an open one is 1/2, not 1; the complaint-type \<open>breach_rate\<close> built from it is
  1/2, not 0 (the open ticket counts as a breach); and the day-and-hour \<open>breach_rate\<close> of
  a ticket answered in thirty hours and an open one is 1/2, not 1 (the open ticket counts
  as a success).
\<close>

theorem summaries_count_null_rows:
  "sql_daily america_new_york 24 [closed_clean, pending_clean] =
     [\<lparr>daily_key = noise_key, daily_summary.tickets = 2,
       daily_summary.median_response = Some 4, pct_within = Some (1 / 2)\<rparr>]
   \<and> complaint_type_table (sql_daily america_new_york 24 [closed_clean, pending_clean]) =
     Some [\<lparr>complaint_type_key = (Some ''Noise'', Some ''BRONX''),
            complaint_type_summary.tickets = 2,
            complaint_type_summary.breach_rate = 1 / 2\<rparr>]
   \<and> sql_dow america_new_york 24 [late_clean, pending_clean] =
     [\<lparr>dow_hour_key = noise_hour_key, dow_hour_summary.tickets = 2,
       dow_hour_summary.breach_rate = Some (1 / 2),
       dow_hour_summary.median_response = Some 30\<rparr>]"
  by (simp add: daily_example dow_example)
     (simp add: complaint_type_table_def group_by_def noise_key_def)

text \<open>
  Claim C3, at the same group and the same threshold of 24 hours: the within-SLA rate of
  the daily query is 1/2 and the breach rate of the day-and-hour query is 0, so the two do
  not add up to 1 once a row has no response time.
\<close>

theorem rates_not_complementary_with_null_row:
  "map pct_within (sql_daily america_new_york 24 [closed_clean, pending_clean]) = [Some (1 / 2)]
   \<and> map dow_hour_summary.breach_rate (sql_dow america_new_york 24 [closed_clean, pending_clean])
       = [Some 0]"
  by (simp add: daily_example)
     (simp add: sql_dow_def group_by_def summary_rows example_keys wall_2024_06_01
      fields_2024_06_01 sql_avg_def case_when_def sql_gt_def)

end
